theory Spec2Isabelle
  imports Complex_Main
begin

section \<open>Strings\<close>

text \<open>
  A JavaScript string is modelled as a \<^typ>\<open>string\<close>: one \<^typ>\<open>char\<close> per UTF-16 code
  unit, for code units below 256. \<open>String.prototype.toLowerCase\<close> maps, in that range,
  the letters A-Z and the Latin-1 capitals (U+00C0-U+00D6, U+00D8-U+00DE) to the code
  unit 32 above them and leaves every other code unit alone.
\<close>

definition toLowerChar :: "char \<Rightarrow> char" where
  "toLowerChar c =
     (let n = (of_char c :: nat)
      in if (65 \<le> n \<and> n \<le> 90) \<or> (192 \<le> n \<and> n \<le> 214) \<or> (216 \<le> n \<and> n \<le> 222)
         then char_of (n + 32) else c)"

definition toLowerCase :: "string \<Rightarrow> string" where
  "toLowerCase s = map toLowerChar s"

text \<open>\<open>s.startsWith(w)\<close> and \<open>s.includes(w)\<close>: \<open>w\<close> occurs in \<open>s\<close> as a contiguous block.\<close>

fun startsWith :: "string \<Rightarrow> string \<Rightarrow> bool" where
  "startsWith s [] = True"
| "startsWith [] (p # ps) = False"
| "startsWith (c # cs) (p # ps) = (c = p \<and> startsWith cs ps)"

fun includes_str :: "string \<Rightarrow> string \<Rightarrow> bool" where
  "includes_str [] w = (w = [])"
| "includes_str (c # cs) w = (startsWith (c # cs) w \<or> includes_str cs w)"

lemma startsWith_iff: "startsWith s w \<longleftrightarrow> (\<exists>q. s = w @ q)"
  by (induction s w rule: startsWith.induct) auto

lemma includes_str_iff: "includes_str s w \<longleftrightarrow> (\<exists>p q. s = p @ w @ q)"
proof (induction s)
  case Nil
  then show ?case by simp
next
  case (Cons c cs)
  show ?case
  proof
    assume "includes_str (c # cs) w"
    then consider "startsWith (c # cs) w" | "includes_str cs w" by auto
    then show "\<exists>p q. c # cs = p @ w @ q"
    proof cases
      case 1
      then obtain q where "c # cs = w @ q" by (auto simp: startsWith_iff)
      then have "c # cs = [] @ w @ q" by simp
      then show ?thesis by blast
    next
      case 2
      then obtain p q where "cs = p @ w @ q" using Cons.IH by blast
      then have "c # cs = (c # p) @ w @ q" by simp
      then show ?thesis by blast
    qed
  next
    assume "\<exists>p q. c # cs = p @ w @ q"
    then obtain p q where pq: "c # cs = p @ w @ q" by blast
    show "includes_str (c # cs) w"
    proof (cases p)
      case Nil
      with pq have "startsWith (c # cs) w" by (auto simp: startsWith_iff)
      then show ?thesis by simp
    next
      case (Cons a p')
      with pq have "cs = p' @ w @ q" by simp
      then have "includes_str cs w" using Cons.IH by blast
      then show ?thesis by simp
    qed
  qed
qed

lemma includes_str_trans:
  assumes "includes_str s w" and "includes_str w v"
  shows "includes_str s v"
proof -
  from assms obtain p q p' q' where "s = p @ w @ q" and "w = p' @ v @ q'"
    by (auto simp: includes_str_iff)
  then have "s = (p @ p') @ v @ (q' @ q)" by simp
  then show ?thesis unfolding includes_str_iff by blast
qed

section \<open>Numbers to strings\<close>

text \<open>The decimal digits of a natural number, as a template literal prints an integer.\<close>

function show_nat :: "nat \<Rightarrow> string" where
  "show_nat n = (if n < 10 then [char_of (48 + n)] else show_nat (n div 10) @ [char_of (48 + n mod 10)])"
  by pat_completeness auto
termination
  by (relation "measure id") auto

declare show_nat.simps [simp del]

lemma show_nat_small [simp]: "n < 10 \<Longrightarrow> show_nat n = [char_of (48 + n)]"
  by (simp add: show_nat.simps)

lemma show_nat_large [simp]:
  "10 \<le> n \<Longrightarrow> show_nat n = show_nat (n div 10) @ [char_of (48 + n mod 10)]"
  by (subst show_nat.simps) simp

section \<open>JavaScript numbers and values\<close>

text \<open>
  A number is a finite value, one of the two infinities, or NaN. Finite values are
  rationals and the arithmetic on them is exact: the rounding of IEEE doubles is not
  modelled, and the two zeros are one. Division by zero follows IEEE: \<open>0/0\<close> is NaN
  and \<open>x/0\<close> is an infinity with the sign of \<open>x\<close>.
\<close>

datatype jsnum = Fin rat | PosInf | NegInf | NaN

fun num_neg :: "jsnum \<Rightarrow> jsnum" where
  "num_neg (Fin a) = Fin (- a)"
| "num_neg PosInf = NegInf"
| "num_neg NegInf = PosInf"
| "num_neg NaN = NaN"

fun num_add :: "jsnum \<Rightarrow> jsnum \<Rightarrow> jsnum" where
  "num_add NaN y = NaN"
| "num_add x NaN = NaN"
| "num_add (Fin a) (Fin b) = Fin (a + b)"
| "num_add PosInf NegInf = NaN"
| "num_add NegInf PosInf = NaN"
| "num_add PosInf y = PosInf"
| "num_add NegInf y = NegInf"
| "num_add (Fin a) y = y"

definition num_sub :: "jsnum \<Rightarrow> jsnum \<Rightarrow> jsnum" where
  "num_sub x y = num_add x (num_neg y)"

text \<open>The sign of a number that is not NaN: \<open>-1\<close>, \<open>0\<close> or \<open>1\<close>.\<close>

fun num_sgn :: "jsnum \<Rightarrow> int" where
  "num_sgn (Fin a) = (if a < 0 then - 1 else if a = 0 then 0 else 1)"
| "num_sgn PosInf = 1"
| "num_sgn NegInf = - 1"
| "num_sgn NaN = 0"

definition signed_inf :: "int \<Rightarrow> jsnum" where
  "signed_inf s = (if s < 0 then NegInf else PosInf)"

fun num_mul :: "jsnum \<Rightarrow> jsnum \<Rightarrow> jsnum" where
  "num_mul NaN y = NaN"
| "num_mul x NaN = NaN"
| "num_mul (Fin a) (Fin b) = Fin (a * b)"
| "num_mul x y = (if num_sgn x = 0 \<or> num_sgn y = 0 then NaN else signed_inf (num_sgn x * num_sgn y))"

fun num_div :: "jsnum \<Rightarrow> jsnum \<Rightarrow> jsnum" where
  "num_div NaN y = NaN"
| "num_div x NaN = NaN"
| "num_div (Fin a) (Fin b) =
     (if b \<noteq> 0 then Fin (a / b) else if a = 0 then NaN else signed_inf (num_sgn (Fin a)))"
| "num_div (Fin a) y = Fin 0"
| "num_div x (Fin b) = signed_inf (num_sgn x * (if b < 0 then - 1 else 1))"
| "num_div x y = NaN"

fun num_abs :: "jsnum \<Rightarrow> jsnum" where
  "num_abs (Fin a) = Fin \<bar>a\<bar>"
| "num_abs PosInf = PosInf"
| "num_abs NegInf = PosInf"
| "num_abs NaN = NaN"

text \<open>\<open>x < y\<close> on numbers: false as soon as one side is NaN.\<close>

fun num_lt :: "jsnum \<Rightarrow> jsnum \<Rightarrow> bool" where
  "num_lt NaN y = False"
| "num_lt x NaN = False"
| "num_lt (Fin a) (Fin b) = (a < b)"
| "num_lt NegInf NegInf = False"
| "num_lt NegInf y = True"
| "num_lt x NegInf = False"
| "num_lt PosInf y = False"
| "num_lt x PosInf = True"

definition num_gt :: "jsnum \<Rightarrow> jsnum \<Rightarrow> bool" where
  "num_gt x y = num_lt y x"

text \<open>
  A value as \<open>JSON.parse\<close> or the formatter builds it. An object is the list of its own
  properties in insertion order; a key is looked up from the front.
\<close>

datatype jsval =
    Undefined
  | Null
  | Bool bool
  | Num jsnum
  | Str string
  | Arr "jsval list"
  | Obj "(string \<times> jsval) list"

definition num :: "rat \<Rightarrow> jsval" where
  "num q = Num (Fin q)"

fun typeof :: "jsval \<Rightarrow> string" where
  "typeof Undefined = ''undefined''"
| "typeof Null = ''object''"
| "typeof (Bool b) = ''boolean''"
| "typeof (Num n) = ''number''"
| "typeof (Str s) = ''string''"
| "typeof (Arr xs) = ''object''"
| "typeof (Obj kvs) = ''object''"

fun truthy :: "jsval \<Rightarrow> bool" where
  "truthy Undefined = False"
| "truthy Null = False"
| "truthy (Bool b) = b"
| "truthy (Num n) = (n \<noteq> NaN \<and> n \<noteq> Fin 0)"
| "truthy (Str s) = (s \<noteq> [])"
| "truthy (Arr xs) = True"
| "truthy (Obj kvs) = True"

text \<open>\<open>a || b\<close>\<close>

definition or_else :: "jsval \<Rightarrow> jsval \<Rightarrow> jsval" where
  "or_else a b = (if truthy a then a else b)"

subsection \<open>Conversions\<close>

text \<open>
  \<open>Number.prototype.toString\<close>. An integer below \<open>10^21\<close> prints as its decimal digits.
  The digits JavaScript prints for any other finite number depend on the double's binary
  representation, which is not modelled: they are the parameter \<open>nf\<close>.
\<close>

definition is_integer :: "rat \<Rightarrow> bool" where
  "is_integer q = (of_int \<lfloor>q\<rfloor> = q)"

definition numberToString :: "(rat \<Rightarrow> string) \<Rightarrow> jsnum \<Rightarrow> string" where
  "numberToString nf n =
     (case n of
        NaN \<Rightarrow> ''NaN''
      | PosInf \<Rightarrow> ''Infinity''
      | NegInf \<Rightarrow> ''-Infinity''
      | Fin q \<Rightarrow>
          if is_integer q \<and> \<bar>q\<bar> < 10 ^ 21
          then (if q < 0 then ''-'' else []) @ show_nat (nat \<lfloor>\<bar>q\<bar>\<rfloor>)
          else nf q)"

fun join_with :: "string \<Rightarrow> string list \<Rightarrow> string" where
  "join_with sep [] = []"
| "join_with sep [x] = x"
| "join_with sep (x # y # ys) = x @ sep @ join_with sep (y # ys)"

text \<open>\<open>String(v)\<close>, as a template literal and \<open>+\<close> on strings apply it.\<close>

fun toStr :: "(rat \<Rightarrow> string) \<Rightarrow> jsval \<Rightarrow> string" where
  "toStr nf Undefined = ''undefined''"
| "toStr nf Null = ''null''"
| "toStr nf (Bool b) = (if b then ''true'' else ''false'')"
| "toStr nf (Num n) = numberToString nf n"
| "toStr nf (Str s) = s"
| "toStr nf (Arr xs) =
     join_with '','' (map (\<lambda>x. if x = Undefined \<or> x = Null then [] else toStr nf x) xs)"
| "toStr nf (Obj kvs) = ''[object Object]''"

text \<open>
  White space and line terminators among the code units below 256: tab, line feed,
  vertical tab, form feed, carriage return, space, no-break space.
\<close>

definition isWhiteSpace :: "char \<Rightarrow> bool" where
  "isWhiteSpace c = ((of_char c :: nat) \<in> {9, 10, 11, 12, 13, 32, 160})"

definition isDigit :: "char \<Rightarrow> bool" where
  "isDigit c = (48 \<le> (of_char c :: nat) \<and> (of_char c :: nat) \<le> 57)"

definition digitValue :: "char \<Rightarrow> nat" where
  "digitValue c = of_char c - 48"

definition digitsValue :: "string \<Rightarrow> nat" where
  "digitsValue ds = foldl (\<lambda>n c. n * 10 + digitValue c) 0 ds"

definition trimStart :: "string \<Rightarrow> string" where
  "trimStart s = dropWhile isWhiteSpace s"

definition trim :: "string \<Rightarrow> string" where
  "trim s = rev (dropWhile isWhiteSpace (rev (dropWhile isWhiteSpace s)))"

text \<open>
  The longest prefix of a string that is a decimal literal (\<open>StrDecimalLiteral\<close>: sign,
  \<open>Infinity\<close> or digits with an optional fraction and exponent), with its value and the
  rest of the string; \<open>None\<close> when no prefix is one.
\<close>

definition takeSign :: "string \<Rightarrow> bool \<times> string" where
  "takeSign s =
     (case s of
        c # cs \<Rightarrow> if c = CHR ''-'' then (True, cs) else if c = CHR ''+'' then (False, cs) else (False, s)
      | [] \<Rightarrow> (False, s))"

definition takeExponent :: "string \<Rightarrow> int \<times> string" where
  "takeExponent s =
     (case s of
        c # cs \<Rightarrow>
          if c = CHR ''e'' \<or> c = CHR ''E'' then
            (let (neg, r) = takeSign cs; ds = takeWhile isDigit r
             in if ds = [] then (0, s)
                else ((if neg then - int (digitsValue ds) else int (digitsValue ds)),
                      dropWhile isDigit r))
          else (0, s)
      | [] \<Rightarrow> (0, s))"

definition pow10 :: "int \<Rightarrow> rat" where
  "pow10 e = (if e < 0 then 1 / 10 ^ nat (- e) else 10 ^ nat e)"

definition decimalPrefix :: "string \<Rightarrow> (jsnum \<times> string) option" where
  "decimalPrefix s =
     (let (neg, r) = takeSign s
      in if startsWith r ''Infinity'' then Some (if neg then NegInf else PosInf, drop 8 r)
         else
           let ip = takeWhile isDigit r;
               r1 = dropWhile isDigit r;
               hasDot = (r1 \<noteq> [] \<and> hd r1 = CHR ''.'');
               fp = (if hasDot then takeWhile isDigit (tl r1) else []);
               r2 = (if hasDot then dropWhile isDigit (tl r1) else r1)
           in if ip = [] \<and> fp = [] then None
              else
                let (e, r3) = takeExponent r2;
                    m = of_nat (digitsValue ip) + of_nat (digitsValue fp) / 10 ^ length fp;
                    v = m * pow10 e
                in Some (Fin (if neg then - v else v), r3))"

text \<open>\<open>parseFloat\<close> of a string, and of any other value through \<open>String(v)\<close>.\<close>

definition parseFloat_str :: "string \<Rightarrow> jsnum" where
  "parseFloat_str s = (case decimalPrefix (trimStart s) of Some (n, r) \<Rightarrow> n | None \<Rightarrow> NaN)"

text \<open>
  A number prints as a literal that parses back to itself, so \<open>parseFloat\<close> of a number
  is that number.
\<close>

definition parseFloat :: "(rat \<Rightarrow> string) \<Rightarrow> jsval \<Rightarrow> jsnum" where
  "parseFloat nf v = (case v of Num n \<Rightarrow> n | _ \<Rightarrow> parseFloat_str (toStr nf v))"

text \<open>
  \<open>Number(s)\<close> for a string (\<open>StringToNumber\<close>): the trimmed string is empty (zero), a
  hexadecimal, octal or binary literal, or a decimal literal that spans all of it;
  anything else is NaN.
\<close>

definition radixDigit :: "char \<Rightarrow> nat option" where
  "radixDigit c =
     (let n = (of_char c :: nat)
      in if 48 \<le> n \<and> n \<le> 57 then Some (n - 48)
         else if 97 \<le> n \<and> n \<le> 102 then Some (n - 87)
         else if 65 \<le> n \<and> n \<le> 70 then Some (n - 55)
         else None)"

definition radixValue :: "nat \<Rightarrow> string \<Rightarrow> jsnum" where
  "radixValue b ds =
     (if ds \<noteq> [] \<and> list_all (\<lambda>c. case radixDigit c of Some d \<Rightarrow> d < b | None \<Rightarrow> False) ds
      then Fin (of_nat (foldl (\<lambda>n c. n * b + the (radixDigit c)) 0 ds))
      else NaN)"

definition stringToNumber :: "string \<Rightarrow> jsnum" where
  "stringToNumber s =
     (let t = trim s
      in if t = [] then Fin 0
         else if startsWith t ''0x'' \<or> startsWith t ''0X'' then radixValue 16 (drop 2 t)
         else if startsWith t ''0o'' \<or> startsWith t ''0O'' then radixValue 8 (drop 2 t)
         else if startsWith t ''0b'' \<or> startsWith t ''0B'' then radixValue 2 (drop 2 t)
         else case decimalPrefix t of Some (n, []) \<Rightarrow> n | _ \<Rightarrow> NaN)"

text \<open>\<open>ToPrimitive\<close>: an array becomes its joined string, an object \<open>[object Object]\<close>.\<close>

definition toPrimitive :: "(rat \<Rightarrow> string) \<Rightarrow> jsval \<Rightarrow> jsval" where
  "toPrimitive nf v = (case v of Arr xs \<Rightarrow> Str (toStr nf v) | Obj kvs \<Rightarrow> Str (toStr nf v) | _ \<Rightarrow> v)"

definition toNumber :: "(rat \<Rightarrow> string) \<Rightarrow> jsval \<Rightarrow> jsnum" where
  "toNumber nf v =
     (case toPrimitive nf v of
        Undefined \<Rightarrow> NaN
      | Null \<Rightarrow> Fin 0
      | Bool b \<Rightarrow> Fin (if b then 1 else 0)
      | Num n \<Rightarrow> n
      | Str s \<Rightarrow> stringToNumber s
      | _ \<Rightarrow> NaN)"

subsection \<open>Operators\<close>

definition isStr :: "jsval \<Rightarrow> bool" where
  "isStr v = (case v of Str s \<Rightarrow> True | _ \<Rightarrow> False)"

text \<open>\<open>a + b\<close>: concatenation as soon as one primitive is a string, addition otherwise.\<close>

definition js_add :: "(rat \<Rightarrow> string) \<Rightarrow> jsval \<Rightarrow> jsval \<Rightarrow> jsval" where
  "js_add nf a b =
     (let pa = toPrimitive nf a; pb = toPrimitive nf b
      in if isStr pa \<or> isStr pb then Str (toStr nf pa @ toStr nf pb)
         else Num (num_add (toNumber nf pa) (toNumber nf pb)))"

definition js_sub :: "(rat \<Rightarrow> string) \<Rightarrow> jsval \<Rightarrow> jsval \<Rightarrow> jsnum" where
  "js_sub nf a b = num_sub (toNumber nf a) (toNumber nf b)"

definition js_div :: "(rat \<Rightarrow> string) \<Rightarrow> jsval \<Rightarrow> jsval \<Rightarrow> jsnum" where
  "js_div nf a b = num_div (toNumber nf a) (toNumber nf b)"

text \<open>Strings compare by code units, left to right; a proper prefix is smaller.\<close>

fun str_lt :: "string \<Rightarrow> string \<Rightarrow> bool" where
  "str_lt [] [] = False"
| "str_lt [] (d # ds) = True"
| "str_lt (c # cs) [] = False"
| "str_lt (c # cs) (d # ds) =
     ((of_char c :: nat) < of_char d \<or> (c = d \<and> str_lt cs ds))"

definition js_lt :: "(rat \<Rightarrow> string) \<Rightarrow> jsval \<Rightarrow> jsval \<Rightarrow> bool" where
  "js_lt nf a b =
     (case (toPrimitive nf a, toPrimitive nf b) of
        (Str s, Str t) \<Rightarrow> str_lt s t
      | (pa, pb) \<Rightarrow> num_lt (toNumber nf pa) (toNumber nf pb))"

definition js_gt :: "(rat \<Rightarrow> string) \<Rightarrow> jsval \<Rightarrow> jsval \<Rightarrow> bool" where
  "js_gt nf a b = js_lt nf b a"

text \<open>
  \<open>a === b\<close>. Arrays and objects are equal only when they are the same reference; the
  model has values, not references, and takes two of them to be distinct.
\<close>

fun strict_eq :: "jsval \<Rightarrow> jsval \<Rightarrow> bool" where
  "strict_eq Undefined Undefined = True"
| "strict_eq Null Null = True"
| "strict_eq (Bool a) (Bool b) = (a = b)"
| "strict_eq (Num a) (Num b) = (a = b \<and> a \<noteq> NaN)"
| "strict_eq (Str a) (Str b) = (a = b)"
| "strict_eq a b = False"

subsection \<open>Reading properties\<close>

datatype js_error = TypeError string | Error string

definition bind_result :: "js_error + 'a \<Rightarrow> ('a \<Rightarrow> js_error + 'b) \<Rightarrow> js_error + 'b" where
  "bind_result x f = (case x of Inl e \<Rightarrow> Inl e | Inr v \<Rightarrow> f v)"

definition nullish :: "jsval \<Rightarrow> bool" where
  "nullish v = (v = Undefined \<or> v = Null)"

text \<open>The message of the engine (V8) for a property read on \<open>undefined\<close> or \<open>null\<close>.\<close>

definition cannot_read :: "jsval \<Rightarrow> string \<Rightarrow> js_error" where
  "cannot_read v k =
     TypeError (''Cannot read properties of '' @ (if v = Null then ''null'' else ''undefined'')
                @ '' (reading '' @ [CHR 0x27] @ k @ [CHR 0x27] @ '')'')"

text \<open>
  \<open>v.k\<close> for a data key \<open>k\<close>, on a value that is neither \<open>undefined\<close> nor \<open>null\<close>. The keys
  the formatter reads are own data properties all; none is a method or another member
  of a prototype, which the value type could not hold.
\<close>

definition js_prop :: "jsval \<Rightarrow> string \<Rightarrow> jsval" where
  "js_prop v k =
     (case v of
        Obj kvs \<Rightarrow> (case map_of kvs k of Some x \<Rightarrow> x | None \<Rightarrow> Undefined)
      | Arr xs \<Rightarrow> (if k = ''length'' then num (of_nat (length xs)) else Undefined)
      | Str s \<Rightarrow> (if k = ''length'' then num (of_nat (length s)) else Undefined)
      | _ \<Rightarrow> Undefined)"

definition js_get :: "jsval \<Rightarrow> string \<Rightarrow> js_error + jsval" where
  "js_get v k = (if nullish v then Inl (cannot_read v k) else Inr (js_prop v k))"

text \<open>\<open>v[i]\<close> for an index \<open>i\<close>.\<close>

definition elem :: "jsval \<Rightarrow> nat \<Rightarrow> jsval" where
  "elem v i =
     (case v of
        Arr xs \<Rightarrow> (if i < length xs then xs ! i else Undefined)
      | Str s \<Rightarrow> (if i < length s then Str [s ! i] else Undefined)
      | Obj kvs \<Rightarrow> (case map_of kvs (show_nat i) of Some x \<Rightarrow> x | None \<Rightarrow> Undefined)
      | _ \<Rightarrow> Undefined)"

definition js_at :: "jsval \<Rightarrow> nat \<Rightarrow> js_error + jsval" where
  "js_at v i = (if nullish v then Inl (cannot_read v (show_nat i)) else Inr (elem v i))"

text \<open>A chain of reads such as \<open>v.stats[0].splits[0].stat\<close>, left to right.\<close>

datatype accessor = Key string | Idx nat

fun js_path :: "jsval \<Rightarrow> accessor list \<Rightarrow> js_error + jsval" where
  "js_path v [] = Inr v"
| "js_path v (Key k # as) = bind_result (js_get v k) (\<lambda>x. js_path x as)"
| "js_path v (Idx i # as) = bind_result (js_at v i) (\<lambda>x. js_path x as)"

text \<open>The same chain with \<open>?.\<close> at every step: \<open>undefined\<close> as soon as a value is nullish.\<close>

fun optional_path :: "jsval \<Rightarrow> accessor list \<Rightarrow> jsval" where
  "optional_path v [] = v"
| "optional_path v (Key k # as) = (if nullish v then Undefined else optional_path (js_prop v k) as)"
| "optional_path v (Idx i # as) = (if nullish v then Undefined else optional_path (elem v i) as)"

section \<open>ResponseParser: outcome and confidence labels (response-parser.js)\<close>

subsection \<open>interpretOutcome\<close>

definition positiveWords :: "string list" where
  "positiveWords = [''win'', ''victory'', ''prevail'', ''advantage'', ''favor'']"

definition negativeWords :: "string list" where
  "negativeWords = [''lose'', ''defeat'', ''struggle'', ''disadvantage'']"

text \<open>
  \<open>positiveWords.some(word => lowerText.includes(word))\<close> is tested first; the negative
  list is only consulted when no positive word occurs.
\<close>

definition interpretOutcome :: "string \<Rightarrow> string" where
  "interpretOutcome text =
     (let lowerText = toLowerCase text
      in if list_ex (\<lambda>word. includes_str lowerText word) positiveWords then ''Giants favored''
         else if list_ex (\<lambda>word. includes_str lowerText word) negativeWords then ''Opponent favored''
         else ''Even matchup'')"

subsection \<open>assessConfidence and calculateConfidenceScore\<close>

definition confidenceIndicators :: "string list" where
  "confidenceIndicators =
     [''strongly'', ''clearly'', ''obviously'', ''definitely'', ''certainly'',
      ''likely'', ''probably'', ''should'', ''expect'', ''confident'',
      ''uncertain'', ''possibly'', ''might'', ''could'', ''maybe'']"

definition strongIndicators :: "string list" where
  "strongIndicators = [''strongly'', ''clearly'', ''obviously'', ''definitely'', ''certainly'']"

definition weakIndicators :: "string list" where
  "weakIndicators = [''uncertain'', ''possibly'', ''might'', ''could'', ''maybe'']"

text \<open>
  \<open>matches\<close> keeps each indicator word that occurs somewhere in the lower-cased text: one
  entry per word, however often the word occurs. \<open>xs.includes(m)\<close> on an array is list
  membership.
\<close>

definition assessConfidence :: "string \<Rightarrow> string" where
  "assessConfidence analysis =
     (let matches = filter (\<lambda>indicator. includes_str (toLowerCase analysis) indicator)
                      confidenceIndicators;
          strongCount = length (filter (\<lambda>m. List.member strongIndicators m) matches);
          weakCount = length (filter (\<lambda>m. List.member weakIndicators m) matches)
      in if strongCount > weakCount then ''high''
         else if weakCount > strongCount then ''low''
         else ''moderate'')"

definition highConfidence :: "string list" where
  "highConfidence = [''confident'', ''certain'', ''strong'', ''likely'']"

definition lowConfidence :: "string list" where
  "lowConfidence = [''uncertain'', ''weak'', ''possible'']"

text \<open>
  \<open>calculateConfidenceScore\<close> receives the list of matched phrases that
  \<open>extractPredictionConfidence\<close> collected; a phrase counts as high when it contains a
  high-confidence word and as low when it contains a low-confidence word.
\<close>

definition calculateConfidenceScore :: "string list \<Rightarrow> string" where
  "calculateConfidenceScore terms =
     (if length terms = 0 then ''moderate''
      else
        let highCount = length (filter (\<lambda>term.
                list_ex (\<lambda>hc. includes_str (toLowerCase term) hc) highConfidence) terms);
            lowCount = length (filter (\<lambda>term.
                list_ex (\<lambda>lc. includes_str (toLowerCase term) lc) lowConfidence) terms)
        in if highCount > lowCount then ''high''
           else if lowCount > highCount then ''low''
           else ''moderate'')"

text \<open>
  The reading of the specification: every occurrence of a word counts, so a word that
  occurs three times counts three times.
\<close>

fun occurrences :: "string \<Rightarrow> string \<Rightarrow> nat" where
  "occurrences [] w = 0"
| "occurrences (c # cs) w = (if startsWith (c # cs) w then 1 else 0) + occurrences cs w"

definition strong_occurrences :: "string \<Rightarrow> nat" where
  "strong_occurrences text = sum_list (map (occurrences (toLowerCase text)) strongIndicators)"

definition weak_occurrences :: "string \<Rightarrow> nat" where
  "weak_occurrences text = sum_list (map (occurrences (toLowerCase text)) weakIndicators)"

text \<open>What the code counts: the distinct indicator words that are present.\<close>

definition strong_present :: "string \<Rightarrow> nat" where
  "strong_present text = card {w. w \<in> set strongIndicators \<and> includes_str (toLowerCase text) w}"

definition weak_present :: "string \<Rightarrow> nat" where
  "weak_present text = card {w. w \<in> set weakIndicators \<and> includes_str (toLowerCase text) w}"

lemma length_filter_member_filter:
  assumes "distinct xs" and "set ys \<subseteq> set xs"
  shows "length (filter (\<lambda>m. List.member ys m) (filter P xs)) = card {w. w \<in> set ys \<and> P w}"
proof -
  have d: "distinct (filter (\<lambda>m. List.member ys m) (filter P xs))"
    using assms(1) by simp
  have "set (filter (\<lambda>m. List.member ys m) (filter P xs)) = {w. w \<in> set ys \<and> P w}"
    using assms(2) by auto
  then show ?thesis using distinct_card [OF d] by simp
qed

lemma distinct_confidenceIndicators: "distinct confidenceIndicators"
  by (simp add: confidenceIndicators_def)

lemma strong_subset: "set strongIndicators \<subseteq> set confidenceIndicators"
  by (simp add: strongIndicators_def confidenceIndicators_def)

lemma weak_subset: "set weakIndicators \<subseteq> set confidenceIndicators"
  by (simp add: weakIndicators_def confidenceIndicators_def)

section \<open>Claims about the response parser\<close>

text \<open>
  C10. Every text whose lower-cased form contains \<open>disadvantage\<close> is labelled
  \<open>Giants favored\<close> by \<open>interpretOutcome\<close>, never \<open>Opponent favored\<close>: the positive
  words are tested first, by substring containment, and \<open>disadvantage\<close> contains
  \<open>advantage\<close>.
\<close>

theorem interpretOutcome_disadvantage:
  assumes "includes_str (toLowerCase text) ''disadvantage''"
  shows "interpretOutcome text = ''Giants favored'' \<and> interpretOutcome text \<noteq> ''Opponent favored''"
proof -
  have "includes_str ''disadvantage'' ''advantage''" by simp
  with assms have "includes_str (toLowerCase text) ''advantage''"
    by (rule includes_str_trans)
  then have "list_ex (\<lambda>word. includes_str (toLowerCase text) word) positiveWords"
    by (simp add: positiveWords_def)
  then show ?thesis by (simp add: interpretOutcome_def)
qed

theorem interpretOutcome_disadvantage_witness:
  "includes_str (toLowerCase ''The Giants are at a clear Disadvantage'') ''disadvantage''
   \<and> interpretOutcome ''The Giants are at a clear Disadvantage'' = ''Giants favored''
   \<and> interpretOutcome ''The Giants are at a clear Disadvantage'' \<noteq> ''Opponent favored''"
proof -
  have h: "includes_str (toLowerCase ''The Giants are at a clear Disadvantage'') ''disadvantage''"
    by (simp add: toLowerCase_def toLowerChar_def char_of_eq_iff)
  show ?thesis using h interpretOutcome_disadvantage [OF h] by blast
qed

text \<open>
  C7, as stated, fails: with three occurrences of one strong word and one occurrence each
  of two weak words, strong occurrences outnumber weak ones, yet \<open>assessConfidence\<close>
  answers \<open>low\<close>.
\<close>

theorem assessConfidence_occurrences_counterexample:
  "strong_occurrences ''clearly clearly clearly it might or could'' = 3
   \<and> weak_occurrences ''clearly clearly clearly it might or could'' = 2
   \<and> assessConfidence ''clearly clearly clearly it might or could'' = ''low''"
  by (simp add: strong_occurrences_def weak_occurrences_def assessConfidence_def
      toLowerCase_def toLowerChar_def strongIndicators_def weakIndicators_def
      confidenceIndicators_def char_of_eq_iff)

text \<open>
  C7, amended. \<open>assessConfidence\<close> compares the number of distinct strong-certainty words
  that occur in the lower-cased text with the number of distinct weak-certainty words
  that occur in it, each word counted once however often it occurs: \<open>high\<close> when more
  strong words are present, \<open>low\<close> when more weak words are present, \<open>moderate\<close> on a
  tie, which includes the text with no indicator word at all.
\<close>

theorem assessConfidence_distinct_words:
  "assessConfidence text =
     (if strong_present text > weak_present text then ''high''
      else if weak_present text > strong_present text then ''low''
      else ''moderate'')"
  unfolding assessConfidence_def Let_def strong_present_def weak_present_def
  by (simp only: length_filter_member_filter [OF distinct_confidenceIndicators strong_subset]
      length_filter_member_filter [OF distinct_confidenceIndicators weak_subset])

theorem assessConfidence_distinct_words_witness:
  "assessConfidence ''clearly clearly clearly it might or could'' =
     (if strong_present ''clearly clearly clearly it might or could''
          > weak_present ''clearly clearly clearly it might or could'' then ''high''
      else if weak_present ''clearly clearly clearly it might or could''
          > strong_present ''clearly clearly clearly it might or could'' then ''low''
      else ''moderate'')
   \<and> assessConfidence [] = ''moderate''"
proof -
  have "assessConfidence [] = ''moderate''"
    by (simp add: assessConfidence_def toLowerCase_def confidenceIndicators_def)
  then show ?thesis
    using assessConfidence_distinct_words [of "''clearly clearly clearly it might or could''"]
    by blast
qed

section \<open>ResilienceLayer: the circuit breaker of McpClient (mcpClient.ts)\<close>

record McpClientConfig =
  maxRetries :: int
  retryDelay :: int
  timeout :: int
  circuitBreakerThreshold :: int
  circuitBreakerResetTime :: int

datatype breaker_mode = Closed | Open | HalfOpen

record CircuitBreakerState =
  failures :: int
  lastFailureTime :: int
  state :: breaker_mode







definition recordFailure :: "McpClientConfig \<Rightarrow> int \<Rightarrow> CircuitBreakerState \<Rightarrow> CircuitBreakerState" where
  "recordFailure cfg now cb =
     (let cb1 = cb\<lparr>failures := failures cb + 1, lastFailureTime := now\<rparr>
      in if failures cb1 \<ge> circuitBreakerThreshold cfg then cb1\<lparr>state := Open\<rparr> else cb1)"














lemma fold_recordFailure_snoc:
  "fold (recordFailure cfg) (ts @ [t]) cb = recordFailure cfg t (fold (recordFailure cfg) ts cb)"
  by simp










section \<open>Claims about the circuit breaker\<close>



section \<open>StatsGateway: the read-through cache of MLBAPIClient.makeRequest (mlb-api.js)\<close>

text \<open>
  What \<open>fetch\<close> and \<open>response.json()\<close> can do: reject with an error (its message is
  kept), reject because the abort signal fired (\<open>error.name === 'AbortError'\<close>), or
  deliver a response with its \<open>ok\<close> flag, status, status text and the outcome of parsing
  the body.
\<close>

datatype 'a fetch_outcome =
    FetchRejected string
  | FetchAborted
  | Response bool nat string "string + 'a"

text \<open>
  The client's state: the cache map from the request URL to \<open>{data, timestamp}\<close>, the
  TTL field \<open>cacheTimeout\<close>, and a count of the \<open>fetch\<close> calls issued so far, kept to
  state how many network calls a request makes.
\<close>

record 'a MLBAPIClient =
  cache :: "string \<rightharpoonup> 'a \<times> int"
  cacheTimeout :: int
  networkCalls :: nat

definition MLBAPIClient_new :: "'a MLBAPIClient" where
  "MLBAPIClient_new = \<lparr> cache = Map.empty, cacheTimeout = 300000, networkCalls = 0 \<rparr>"

text \<open>
  The part of \<open>makeRequest\<close> after the cache check: one \<open>fetch\<close>; a response that is not
  \<open>ok\<close> throws the \<open>MLB API error\<close>, a successful one is stored under the key with the
  clock \<open>t1\<close> read after the body has arrived. Every failure leaves the cache as it was.
\<close>

definition fetchAndCache ::
  "'a MLBAPIClient \<Rightarrow> string \<Rightarrow> 'a fetch_outcome \<Rightarrow> int \<Rightarrow> (string + 'a) \<times> 'a MLBAPIClient" where
  "fetchAndCache c cacheKey outcome t1 =
     (let c1 = c\<lparr>networkCalls := networkCalls c + 1\<rparr>
      in case outcome of
           FetchRejected msg \<Rightarrow> (Inl msg, c1)
         | FetchAborted \<Rightarrow> (Inl ''MLB API request timeout'', c1)
         | Response ok status statusText body \<Rightarrow>
             if \<not> ok then (Inl (''MLB API error: '' @ show_nat status @ '' '' @ statusText), c1)
             else (case body of
                     Inl msg \<Rightarrow> (Inl msg, c1)
                   | Inr data \<Rightarrow> (Inr data, c1\<lparr>cache := (cache c1)(cacheKey \<mapsto> (data, t1))\<rparr>)))"

text \<open>
  \<open>makeRequest\<close>, from the cache key on (\<open>cacheKey = url.toString()\<close>, the
  fully-qualified request URL); \<open>t0\<close> is the clock at the cache check.
\<close>

definition makeRequest ::
  "'a MLBAPIClient \<Rightarrow> string \<Rightarrow> int \<Rightarrow> 'a fetch_outcome \<Rightarrow> int \<Rightarrow> (string + 'a) \<times> 'a MLBAPIClient" where
  "makeRequest c cacheKey t0 outcome t1 =
     (case cache c cacheKey of
        Some (data, timestamp) \<Rightarrow>
          if t0 - timestamp < cacheTimeout c then (Inr data, c)
          else fetchAndCache c cacheKey outcome t1
      | None \<Rightarrow> fetchAndCache c cacheKey outcome t1)"

text \<open>The data a fetch delivers, when it delivers any: an \<open>ok\<close> response whose body parses.\<close>

definition fetched_data :: "'a fetch_outcome \<Rightarrow> 'a option" where
  "fetched_data outcome =
     (case outcome of
        Response ok status statusText (Inr data) \<Rightarrow> if ok then Some data else None
      | _ \<Rightarrow> None)"

definition stale_client :: "nat MLBAPIClient" where
  "stale_client = \<lparr> cache = [''https://statsapi.mlb.com/api/v1/teams/137'' \<mapsto> (7, 0)],
     cacheTimeout = 300000, networkCalls = 1 \<rparr>"

section \<open>Claims about the sports-data cache\<close>

text \<open>
  C9, as stated, fails: an expired entry is not replaced when the one fresh network call
  fails. Here the entry stored at time 0 is read at 300001 ms, the upstream answers
  503, the request throws, and the stale entry is still in the cache.
\<close>

theorem makeRequest_expired_failure_counterexample:
  "cache stale_client ''https://statsapi.mlb.com/api/v1/teams/137'' = Some (7, 0)
   \<and> 300001 - 0 > cacheTimeout stale_client
   \<and> fst (makeRequest stale_client ''https://statsapi.mlb.com/api/v1/teams/137'' 300001
            (Response False 503 ''Service Unavailable'' (Inl [])) 300002)
        = Inl ''MLB API error: 503 Service Unavailable''
   \<and> networkCalls (snd (makeRequest stale_client ''https://statsapi.mlb.com/api/v1/teams/137'' 300001
            (Response False 503 ''Service Unavailable'' (Inl [])) 300002)) = 2
   \<and> cache (snd (makeRequest stale_client ''https://statsapi.mlb.com/api/v1/teams/137'' 300001
            (Response False 503 ''Service Unavailable'' (Inl [])) 300002))
         ''https://statsapi.mlb.com/api/v1/teams/137'' = Some (7, 0)"
  by (simp add: stale_client_def makeRequest_def fetchAndCache_def char_of_eq_iff)

text \<open>
  C9, amended. With an entry for the request URL in the cache, a request made less than
  the TTL (300000 ms) after the entry's timestamp returns the cached data and leaves
  the client as it was: no network call. A request made at or after the TTL issues
  exactly one network call; when that call succeeds the fresh data is returned and
  replaces the entry, stamped with the time of arrival; when it fails the request
  throws and the cache is unchanged.
\<close>

theorem makeRequest_cache_ttl:
  assumes "cache c cacheKey = Some (data, timestamp)"
  shows "cacheTimeout (MLBAPIClient_new :: 'a MLBAPIClient) = 300000
     \<and> (t0 - timestamp < cacheTimeout c \<longrightarrow>
          makeRequest c cacheKey t0 outcome t1 = (Inr data, c))
     \<and> (t0 - timestamp \<ge> cacheTimeout c \<longrightarrow>
          networkCalls (snd (makeRequest c cacheKey t0 outcome t1)) = networkCalls c + 1
        \<and> (case fetched_data outcome of
             Some fresh \<Rightarrow>
               fst (makeRequest c cacheKey t0 outcome t1) = Inr fresh
             \<and> cache (snd (makeRequest c cacheKey t0 outcome t1)) = (cache c)(cacheKey \<mapsto> (fresh, t1))
           | None \<Rightarrow>
               isl (fst (makeRequest c cacheKey t0 outcome t1))
             \<and> cache (snd (makeRequest c cacheKey t0 outcome t1)) = cache c))"
  using assms
  by (auto simp: MLBAPIClient_new_def makeRequest_def fetchAndCache_def fetched_data_def Let_def
      split: fetch_outcome.splits sum.splits option.splits)


theorem makeRequest_cache_ttl_witness:
  "cache stale_client ''https://statsapi.mlb.com/api/v1/teams/137'' = Some (7, 0)
   \<and> 299999 - 0 < cacheTimeout stale_client
   \<and> makeRequest stale_client ''https://statsapi.mlb.com/api/v1/teams/137'' 299999
        (Response True 200 ''OK'' (Inr 8)) 300000 = (Inr 7, stale_client)
   \<and> 300000 - 0 \<ge> cacheTimeout stale_client
   \<and> networkCalls (snd (makeRequest stale_client ''https://statsapi.mlb.com/api/v1/teams/137''
        300000 (Response True 200 ''OK'' (Inr 8)) 300004)) = networkCalls stale_client + 1
   \<and> fst (makeRequest stale_client ''https://statsapi.mlb.com/api/v1/teams/137''
        300000 (Response True 200 ''OK'' (Inr 8)) 300004) = Inr 8
   \<and> cache (snd (makeRequest stale_client ''https://statsapi.mlb.com/api/v1/teams/137''
        300000 (Response True 200 ''OK'' (Inr 8)) 300004))
        ''https://statsapi.mlb.com/api/v1/teams/137'' = Some (8, 300004)"
proof -
  have h: "cache stale_client ''https://statsapi.mlb.com/api/v1/teams/137'' = Some (7, 0)"
    by (simp add: stale_client_def)
  have e1: "makeRequest stale_client ''https://statsapi.mlb.com/api/v1/teams/137'' 299999
        (Response True 200 ''OK'' (Inr 8)) 300000 = (Inr 7, stale_client)"
    by (simp add: stale_client_def makeRequest_def)
  have e2: "makeRequest stale_client ''https://statsapi.mlb.com/api/v1/teams/137'' 300000
        (Response True 200 ''OK'' (Inr 8)) 300004
      = (Inr 8, \<lparr> cache = [''https://statsapi.mlb.com/api/v1/teams/137'' \<mapsto> (8, 300004)],
           cacheTimeout = 300000, networkCalls = 2 \<rparr>)"
    by (simp add: stale_client_def makeRequest_def fetchAndCache_def)
  note a = makeRequest_cache_ttl [OF h, of 299999 "Response True 200 ''OK'' (Inr 8)" 300000]
  note b = makeRequest_cache_ttl [OF h, of 300000 "Response True 200 ''OK'' (Inr 8)" 300004]
  have t: "cacheTimeout stale_client = 300000" and n: "networkCalls stale_client = 1"
    by (simp_all add: stale_client_def)
  show ?thesis using a b by (simp add: e1 e2 h t n)
qed

section \<open>DataFormatter (data-formatter.js)\<close>

text \<open>
  Every method is a function of the raw values it receives; a thrown exception is the
  \<open>Inl\<close> result. \<open>nf\<close> is the number printing of \<open>numberToString\<close>.
\<close>

definition unavailable :: jsval where
  "unavailable = Obj [(''available'', Bool False)]"

definition giantsTeamId :: jsval where
  "giantsTeamId = num 137"

fun map_result :: "('a \<Rightarrow> js_error + 'b) \<Rightarrow> 'a list \<Rightarrow> js_error + 'b list" where
  "map_result f [] = Inr []"
| "map_result f (x # xs) =
     bind_result (f x) (\<lambda>y. bind_result (map_result f xs) (\<lambda>ys. Inr (y # ys)))"

subsection \<open>formatGameContext\<close>

definition formatGameContext :: "jsval \<Rightarrow> jsval \<Rightarrow> jsval \<Rightarrow> js_error + jsval" where
  "formatGameContext game opponent isHomeGame =
     bind_result (js_get game ''gameDate'') (\<lambda>date.
     bind_result (js_path game [Key ''venue'', Key ''name'']) (\<lambda>venue.
     bind_result (js_get opponent ''name'') (\<lambda>opponentName.
     bind_result (js_get opponent ''id'') (\<lambda>opponentId.
     bind_result (js_path game [Key ''teams'', Key ''away'', Key ''team'', Key ''id'']) (\<lambda>awayId.
     bind_result
       (if strict_eq awayId opponentId
        then js_path game [Key ''teams'', Key ''away'', Key ''leagueRecord'']
        else js_path game [Key ''teams'', Key ''home'', Key ''leagueRecord'']) (\<lambda>opponentRecord.
     bind_result
       (if truthy isHomeGame
        then js_path game [Key ''teams'', Key ''home'', Key ''leagueRecord'']
        else js_path game [Key ''teams'', Key ''away'', Key ''leagueRecord'']) (\<lambda>giantsRecord.
     Inr (Obj [
       (''date'', date),
       (''venue'', venue),
       (''isHomeGame'', isHomeGame),
       (''opponent'', Obj [
          (''name'', opponentName),
          (''id'', opponentId),
          (''record'', opponentRecord)]),
       (''giants'', Obj [(''record'', giantsRecord)]),
       (''gameType'', js_prop game ''gameType''),
       (''gameNumber'', js_prop game ''gameNumber''),
       (''seriesInfo'', Obj [
          (''gamesInSeries'', js_prop game ''gamesInSeries''),
          (''seriesGameNumber'', js_prop game ''seriesGameNumber''),
          (''seriesDescription'', js_prop game ''seriesDescription'')])]))))))))"

subsection \<open>calculateAdvantage\<close>

text \<open>
  The relative difference is \<open>|value1 - value2|\<close> divided by the average and is not
  guarded against an average of zero: for \<open>0\<close> and \<open>0\<close> it is NaN, which is not below 5.
\<close>

definition calculateAdvantage :: "jsval \<Rightarrow> jsval \<Rightarrow> string" where
  "calculateAdvantage value1 value2 =
     (if typeof value1 \<noteq> ''number'' \<or> typeof value2 \<noteq> ''number'' then ''Even''
      else case (value1, value2) of
        (Num v1, Num v2) \<Rightarrow>
          (let diff = num_abs (num_sub v1 v2);
               avg = num_div (num_add v1 v2) (Fin 2);
               percentDiff = num_mul (num_div diff avg) (Fin 100)
           in if num_lt percentDiff (Fin 5) then ''Even''
              else if num_gt v1 v2 then ''Giants'' else ''Opponent'')
      | _ \<Rightarrow> ''Even'')"


subsection \<open>extractKeyTeamStats, compareTeamStats, formatTeamStats\<close>

text \<open>\<open>stats.k || d\<close>, for \<open>stats\<close> that is not nullish.\<close>

definition field_or :: "jsval \<Rightarrow> string \<Rightarrow> jsval \<Rightarrow> jsval" where
  "field_or stats k d = or_else (js_prop stats k) d"

text \<open>\<open>stats.a && stats.b ? `${stats.a}-${stats.b}` : 'N/A'\<close>\<close>

definition pair_or_NA :: "(rat \<Rightarrow> string) \<Rightarrow> jsval \<Rightarrow> string \<Rightarrow> string \<Rightarrow> jsval" where
  "pair_or_NA nf stats a b =
     (if truthy (js_prop stats a) \<and> truthy (js_prop stats b)
      then Str (toStr nf (js_prop stats a) @ ''-'' @ toStr nf (js_prop stats b))
      else Str ''N/A'')"

text \<open>
  The guard tests \<open>teamStats\<close>, \<open>teamStats.stats\<close> and \<open>teamStats.stats.length === 0\<close>
  only; \<open>teamStats.stats[0].splits[0].stat\<close> is then read without a check. The object
  literal reads \<open>stats.wins\<close> first, which throws when \<open>stats\<close> is nullish; once that
  read has succeeded no later one can throw.
\<close>

definition extractKeyTeamStats :: "(rat \<Rightarrow> string) \<Rightarrow> jsval \<Rightarrow> js_error + jsval" where
  "extractKeyTeamStats nf teamStats =
     (if \<not> truthy teamStats \<or> \<not> truthy (js_prop teamStats ''stats'')
         \<or> strict_eq (js_prop (js_prop teamStats ''stats'') ''length'') (num 0)
      then Inr unavailable
      else
        bind_result
          (js_path teamStats [Key ''stats'', Idx 0, Key ''splits'', Idx 0, Key ''stat''])
          (\<lambda>stats.
             if nullish stats then Inl (cannot_read stats ''wins'')
             else Inr (Obj [
               (''available'', Bool True),
               (''record'', Obj [
                  (''wins'', field_or stats ''wins'' (num 0)),
                  (''losses'', field_or stats ''losses'' (num 0)),
                  (''winPercentage'', field_or stats ''winPercentage'' (Str ''0.000''))]),
               (''offense'', Obj [
                  (''runsPerGame'', field_or stats ''runsPerGame'' (num 0)),
                  (''homeRuns'', field_or stats ''homeRuns'' (num 0)),
                  (''battingAverage'', field_or stats ''avg'' (Str ''0.000'')),
                  (''onBasePercentage'', field_or stats ''obp'' (Str ''0.000'')),
                  (''sluggingPercentage'', field_or stats ''slg'' (Str ''0.000'')),
                  (''ops'', field_or stats ''ops'' (Str ''0.000''))]),
               (''pitching'', Obj [
                  (''earnedRunAverage'', field_or stats ''earnedRunAverage'' (num 0)),
                  (''whip'', field_or stats ''whip'' (num 0)),
                  (''strikeOuts'', field_or stats ''strikeOuts'' (num 0)),
                  (''homeRunsAllowed'', field_or stats ''homeRunsAllowed'' (num 0)),
                  (''qualityStarts'', field_or stats ''qualityStarts'' (num 0)),
                  (''saves'', field_or stats ''saves'' (num 0))]),
               (''fielding'', Obj [
                  (''errors'', field_or stats ''errors'' (num 0)),
                  (''fieldingPercentage'', field_or stats ''fieldingPercentage'' (Str ''0.000'')),
                  (''doublePlays'', field_or stats ''doublePlays'' (num 0))]),
               (''situational'', Obj [
                  (''homeRecord'', pair_or_NA nf stats ''homeWins'' ''homeLosses''),
                  (''awayRecord'', pair_or_NA nf stats ''awayWins'' ''awayLosses''),
                  (''last10'', field_or stats ''last10'' (Str ''N/A'')),
                  (''oneRunGames'', pair_or_NA nf stats ''oneRunWins'' ''oneRunLosses'')])])))"

text \<open>
  A chain of reads on an object the formatter has just built, where no read is on a
  nullish value.
\<close>

definition read :: "jsval \<Rightarrow> string list \<Rightarrow> jsval" where
  "read v ks = foldl js_prop v ks"

definition compareTeamStats :: "(rat \<Rightarrow> string) \<Rightarrow> jsval \<Rightarrow> jsval \<Rightarrow> js_error + jsval" where
  "compareTeamStats nf giantsStats opponentStats =
     bind_result (extractKeyTeamStats nf giantsStats) (\<lambda>giants.
     bind_result (extractKeyTeamStats nf opponentStats) (\<lambda>opponent.
       if \<not> truthy (js_prop giants ''available'') \<or> \<not> truthy (js_prop opponent ''available'')
       then Inr unavailable
       else Inr (Obj [
         (''available'', Bool True),
         (''offensiveAdvantage'', Str (calculateAdvantage
             (read giants [''offense'', ''ops''])
             (read opponent [''offense'', ''ops'']))),
         (''pitchingAdvantage'', Str (calculateAdvantage
             (read opponent [''pitching'', ''earnedRunAverage''])
             (read giants [''pitching'', ''earnedRunAverage'']))),
         (''recordAdvantage'', Str (calculateAdvantage
             (read giants [''record'', ''winPercentage''])
             (read opponent [''record'', ''winPercentage'']))),
         (''homeFieldAdvantage'',
             (if \<not> strict_eq (read giants [''situational'', ''homeRecord''])
                     (Str ''N/A'')
              then Str ''Giants'' else Str ''Neutral''))])))"

definition formatTeamStats :: "(rat \<Rightarrow> string) \<Rightarrow> jsval \<Rightarrow> jsval \<Rightarrow> js_error + jsval" where
  "formatTeamStats nf giantsStats opponentStats =
     bind_result (extractKeyTeamStats nf giantsStats) (\<lambda>giants.
     bind_result (extractKeyTeamStats nf opponentStats) (\<lambda>opponent.
     bind_result (compareTeamStats nf giantsStats opponentStats) (\<lambda>comparison.
       Inr (Obj [(''giants'', giants), (''opponent'', opponent), (''comparison'', comparison)]))))"

subsection \<open>analyzeRecentGames, calculateStreak, identifyTrends, formatRecentPerformance\<close>

text \<open>
  \<open>Number.prototype.toFixed(d)\<close>: the integer \<open>n\<close> nearest to \<open>x * 10^d\<close>, the larger one
  on a tie, printed with \<open>d\<close> digits after the point; the sign comes first.
\<close>

definition toFixed :: "(rat \<Rightarrow> string) \<Rightarrow> nat \<Rightarrow> jsnum \<Rightarrow> string" where
  "toFixed nf d n =
     (case n of
        Fin q \<Rightarrow>
          if \<bar>q\<bar> \<ge> 10 ^ 21 then numberToString nf n
          else
            let k = nat \<lfloor>\<bar>q\<bar> * 10 ^ d + 1 / 2\<rfloor>;
                ds = show_nat k;
                padded = replicate (d + 1 - length ds) (CHR ''0'') @ ds
            in (if q < 0 then ''-'' else [])
               @ take (length padded - d) padded
               @ (if d = 0 then [] else ''.'' @ drop (length padded - d) padded)
      | _ \<Rightarrow> numberToString nf n)"

text \<open>
  The three reads every loop over games starts with: whether the team is at home
  (\<open>teamId ? game.teams.home.team.id === teamId : true\<close>), its score and the other
  side's score.
\<close>

definition isHome_of :: "jsval \<Rightarrow> jsval \<Rightarrow> js_error + bool" where
  "isHome_of teamId game =
     (if truthy teamId
      then bind_result (js_path game [Key ''teams'', Key ''home'', Key ''team'', Key ''id''])
             (\<lambda>i. Inr (strict_eq i teamId))
      else Inr True)"

definition teamScore_of :: "bool \<Rightarrow> jsval \<Rightarrow> js_error + jsval" where
  "teamScore_of isHome game =
     (if isHome then js_path game [Key ''teams'', Key ''home'', Key ''score'']
      else js_path game [Key ''teams'', Key ''away'', Key ''score''])"

definition opponentScore_of :: "bool \<Rightarrow> jsval \<Rightarrow> js_error + jsval" where
  "opponentScore_of isHome game =
     (if isHome then js_path game [Key ''teams'', Key ''away'', Key ''score'']
      else js_path game [Key ''teams'', Key ''home'', Key ''score''])"

record tally =
  t_wins :: nat
  t_runs :: jsval
  t_runsAllowed :: jsval
  t_homeGames :: nat
  t_homeWins :: nat

text \<open>The body of \<open>recentGames.forEach\<close>.\<close>

definition tally_game :: "(rat \<Rightarrow> string) \<Rightarrow> jsval \<Rightarrow> tally \<Rightarrow> jsval \<Rightarrow> js_error + tally" where
  "tally_game nf teamId t game =
     bind_result (isHome_of teamId game) (\<lambda>isHome.
     bind_result (teamScore_of isHome game) (\<lambda>teamScore.
     bind_result (opponentScore_of isHome game) (\<lambda>opponentScore.
       let won = js_gt nf teamScore opponentScore
       in Inr \<lparr> t_wins = (if won then t_wins t + 1 else t_wins t),
                t_runs = js_add nf (t_runs t) (or_else teamScore (num 0)),
                t_runsAllowed = js_add nf (t_runsAllowed t) (or_else opponentScore (num 0)),
                t_homeGames = (if isHome then t_homeGames t + 1 else t_homeGames t),
                t_homeWins = (if isHome \<and> won then t_homeWins t + 1 else t_homeWins t) \<rparr>)))"

fun tally_games :: "(rat \<Rightarrow> string) \<Rightarrow> jsval \<Rightarrow> tally \<Rightarrow> jsval list \<Rightarrow> js_error + tally" where
  "tally_games nf teamId t [] = Inr t"
| "tally_games nf teamId t (game # games) =
     bind_result (tally_game nf teamId t game) (\<lambda>t'. tally_games nf teamId t' games)"

text \<open>
  \<open>calculateStreak\<close>, called with the sliced array: the loop stops at the first game
  whose result differs from the most recent one, and reads no game after it.
\<close>

fun streak_loop ::
  "(rat \<Rightarrow> string) \<Rightarrow> jsval \<Rightarrow> bool option \<Rightarrow> nat \<Rightarrow> jsval list \<Rightarrow> js_error + bool option \<times> nat" where
  "streak_loop nf teamId isWinStreak streak [] = Inr (isWinStreak, streak)"
| "streak_loop nf teamId isWinStreak streak (game # games) =
     bind_result (isHome_of teamId game) (\<lambda>isHome.
     bind_result (teamScore_of isHome game) (\<lambda>teamScore.
     bind_result (opponentScore_of isHome game) (\<lambda>opponentScore.
       let isWin = js_gt nf teamScore opponentScore
       in case isWinStreak of
            None \<Rightarrow> streak_loop nf teamId (Some isWin) 1 games
          | Some w \<Rightarrow>
              if w = isWin then streak_loop nf teamId isWinStreak (streak + 1) games
              else Inr (isWinStreak, streak))))"

definition calculateStreak :: "(rat \<Rightarrow> string) \<Rightarrow> jsval list \<Rightarrow> jsval \<Rightarrow> js_error + string" where
  "calculateStreak nf games teamId =
     (if length games = 0 then Inr ''N/A''
      else bind_result (streak_loop nf teamId None 0 games) (\<lambda>(isWinStreak, streak).
             Inr ((if isWinStreak = Some True then ''W'' else ''L'') @ show_nat streak)))"

text \<open>The \<open>reduce\<close> of \<open>identifyTrends\<close>: the raw scores are added, a missing one included.\<close>

fun sum_scores :: "(rat \<Rightarrow> string) \<Rightarrow> jsval \<Rightarrow> jsval \<Rightarrow> jsval list \<Rightarrow> js_error + jsval" where
  "sum_scores nf teamId acc [] = Inr acc"
| "sum_scores nf teamId acc (game # games) =
     bind_result (isHome_of teamId game) (\<lambda>isHome.
     bind_result (teamScore_of isHome game) (\<lambda>score.
       sum_scores nf teamId (js_add nf acc score) games))"

definition identifyTrends :: "(rat \<Rightarrow> string) \<Rightarrow> jsval list \<Rightarrow> jsval \<Rightarrow> js_error + jsval" where
  "identifyTrends nf games teamId =
     (if length games < 5 then Inr (Arr [])
      else
        let recent5 = take 5 games; previous5 = take 5 (drop 5 games)
        in bind_result (sum_scores nf teamId (num 0) recent5) (\<lambda>recentSum.
           bind_result (sum_scores nf teamId (num 0) previous5) (\<lambda>previousSum.
             let recentAvgRuns = js_div nf recentSum (num (of_nat (length recent5)));
                 previousAvgRuns = js_div nf previousSum (num (of_nat (length previous5)))
             in if num_gt recentAvgRuns (num_add previousAvgRuns (Fin (1 / 2)))
                then Inr (Arr [Str ''Offense improving''])
                else if num_lt recentAvgRuns (num_sub previousAvgRuns (Fin (1 / 2)))
                then Inr (Arr [Str ''Offense struggling''])
                else Inr (Arr []))))"

text \<open>
  \<open>analyzeRecentGames\<close>. A truthy \<open>games\<close> that is not an array has no \<open>slice\<close>, or (a
  string) has one whose result has no \<open>forEach\<close>.
\<close>

definition analyzeRecentGames :: "(rat \<Rightarrow> string) \<Rightarrow> jsval \<Rightarrow> jsval \<Rightarrow> js_error + jsval" where
  "analyzeRecentGames nf games teamId =
     (if \<not> truthy games \<or> strict_eq (js_prop games ''length'') (num 0) then Inr unavailable
      else case games of
        Arr all_games \<Rightarrow>
          (let recentGames = take 10 all_games;
               n = length recentGames
           in bind_result
                (tally_games nf teamId
                   \<lparr> t_wins = 0, t_runs = num 0, t_runsAllowed = num 0,
                     t_homeGames = 0, t_homeWins = 0 \<rparr> recentGames) (\<lambda>t.
              bind_result (calculateStreak nf recentGames teamId) (\<lambda>streak.
              bind_result (identifyTrends nf recentGames teamId) (\<lambda>trends.
                Inr (Obj [
                  (''available'', Bool True),
                  (''record'', Str (show_nat (t_wins t) @ ''-'' @ show_nat (n - t_wins t))),
                  (''winPercentage'',
                     Str (toFixed nf 3 (num_div (Fin (of_nat (t_wins t))) (Fin (of_nat n))))),
                  (''runsPerGame'', Str (toFixed nf 2 (js_div nf (t_runs t) (num (of_nat n))))),
                  (''runsAllowedPerGame'',
                     Str (toFixed nf 2 (js_div nf (t_runsAllowed t) (num (of_nat n))))),
                  (''runDifferential'', Num (js_sub nf (t_runs t) (t_runsAllowed t))),
                  (''homeRecord'',
                     (if t_homeGames t > 0
                      then Str (show_nat (t_homeWins t) @ ''-''
                                @ show_nat (t_homeGames t - t_homeWins t))
                      else Str ''N/A'')),
                  (''streak'', Str streak),
                  (''trends'', trends)])))))
      | Str s \<Rightarrow> Inl (TypeError ''recentGames.forEach is not a function'')
      | _ \<Rightarrow> Inl (TypeError ''games.slice is not a function''))"

text \<open>The opponent's games are analysed with \<open>teamId = null\<close>, the default.\<close>

definition formatRecentPerformance :: "(rat \<Rightarrow> string) \<Rightarrow> jsval \<Rightarrow> jsval \<Rightarrow> js_error + jsval" where
  "formatRecentPerformance nf giantsGames opponentGames =
     bind_result (analyzeRecentGames nf giantsGames giantsTeamId) (\<lambda>giants.
     bind_result (analyzeRecentGames nf opponentGames Null) (\<lambda>opponent.
       Inr (Obj [(''giants'', giants), (''opponent'', opponent)])))"

subsection \<open>formatPitcherData, comparePitchers, formatPitchingMatchup\<close>

definition formatPitcherData :: "(rat \<Rightarrow> string) \<Rightarrow> jsval \<Rightarrow> jsval \<Rightarrow> js_error + jsval" where
  "formatPitcherData nf pitcher stats =
     (if \<not> truthy pitcher then Inr unavailable
      else
        let pitcherInfo = [
              (''available'', Bool True),
              (''name'', js_prop pitcher ''fullName''),
              (''id'', js_prop pitcher ''id''),
              (''throwsHand'',
                 or_else (optional_path (js_prop pitcher ''pitchHand'') [Key ''description''])
                   (Str ''Unknown''))]
        in if truthy stats \<and> truthy (js_prop stats ''stats'')
              \<and> js_gt nf (js_prop (js_prop stats ''stats'') ''length'') (num 0)
           then
             bind_result
               (js_path stats [Key ''stats'', Idx 0, Key ''splits'', Idx 0, Key ''stat''])
               (\<lambda>seasonStats.
                  if nullish seasonStats then Inl (cannot_read seasonStats ''wins'')
                  else Inr (Obj (pitcherInfo @ [
                    (''stats'', Obj [
                       (''wins'', field_or seasonStats ''wins'' (num 0)),
                       (''losses'', field_or seasonStats ''losses'' (num 0)),
                       (''era'', field_or seasonStats ''era'' (Str ''0.00'')),
                       (''whip'', field_or seasonStats ''whip'' (Str ''0.00'')),
                       (''strikeOuts'', field_or seasonStats ''strikeOuts'' (num 0)),
                       (''walks'', field_or seasonStats ''baseOnBalls'' (num 0)),
                       (''inningsPitched'', field_or seasonStats ''inningsPitched'' (Str ''0.0'')),
                       (''homeRunsAllowed'', field_or seasonStats ''homeRuns'' (num 0)),
                       (''qualityStarts'', field_or seasonStats ''qualityStarts'' (num 0)),
                       (''groundOuts'', field_or seasonStats ''groundOuts'' (num 0)),
                       (''airOuts'', field_or seasonStats ''airOuts'' (num 0))])])))
           else Inr (Obj pitcherInfo))"

text \<open>
  \<open>comparePitchers\<close> reads \<open>stats?.[0]?.splits?.[0]?.stat\<close> with optional chaining and
  answers \<open>{available: false}\<close> when the chain ends in a falsy value. For ERA and WHIP
  the opponent's value is the first argument of \<open>calculateAdvantage\<close>.
\<close>

definition comparePitchers :: "(rat \<Rightarrow> string) \<Rightarrow> jsval \<Rightarrow> jsval \<Rightarrow> jsval" where
  "comparePitchers nf giantsStats opponentStats =
     (if \<not> truthy giantsStats \<or> \<not> truthy opponentStats then unavailable
      else
        let giants = optional_path (js_prop giantsStats ''stats'')
                       [Idx 0, Key ''splits'', Idx 0, Key ''stat''];
            opponent = optional_path (js_prop opponentStats ''stats'')
                       [Idx 0, Key ''splits'', Idx 0, Key ''stat'']
        in if \<not> truthy giants \<or> \<not> truthy opponent then unavailable
           else Obj [
             (''available'', Bool True),
             (''eraAdvantage'', Str (calculateAdvantage
                 (Num (parseFloat nf (js_prop opponent ''era'')))
                 (Num (parseFloat nf (js_prop giants ''era''))))),
             (''whipAdvantage'', Str (calculateAdvantage
                 (Num (parseFloat nf (js_prop opponent ''whip'')))
                 (Num (parseFloat nf (js_prop giants ''whip''))))),
             (''strikeoutAdvantage'', Str (calculateAdvantage
                 (js_prop giants ''strikeOuts'') (js_prop opponent ''strikeOuts''))),
             (''recordAdvantage'', Str (calculateAdvantage
                 (Num (js_div nf (js_prop giants ''wins'')
                    (js_add nf (js_prop giants ''wins'') (js_prop giants ''losses''))))
                 (Num (js_div nf (js_prop opponent ''wins'')
                    (js_add nf (js_prop opponent ''wins'') (js_prop opponent ''losses''))))))])"

definition formatPitchingMatchup ::
  "(rat \<Rightarrow> string) \<Rightarrow> jsval \<Rightarrow> jsval \<Rightarrow> jsval \<Rightarrow> jsval \<Rightarrow> js_error + jsval" where
  "formatPitchingMatchup nf probablePitchers homePitcherStats awayPitcherStats isHomeGame =
     (if \<not> truthy probablePitchers then Inr unavailable
      else
        let giantsPitcher = (if truthy isHomeGame then js_prop probablePitchers ''home''
                             else js_prop probablePitchers ''away'');
            opponentPitcher = (if truthy isHomeGame then js_prop probablePitchers ''away''
                               else js_prop probablePitchers ''home'');
            giantsPitcherStats = (if truthy isHomeGame then homePitcherStats else awayPitcherStats);
            opponentPitcherStats = (if truthy isHomeGame then awayPitcherStats else homePitcherStats)
        in bind_result (formatPitcherData nf giantsPitcher giantsPitcherStats) (\<lambda>giants.
           bind_result (formatPitcherData nf opponentPitcher opponentPitcherStats) (\<lambda>opponent.
             Inr (Obj [
               (''available'', Bool True),
               (''giants'', giants),
               (''opponent'', opponent),
               (''comparison'', comparePitchers nf giantsPitcherStats opponentPitcherStats)]))))"

subsection \<open>formatWeather, formatInjuries\<close>

text \<open>
  \<open>/(\d+)\s*mph/i\<close>: the first run of digits that is followed, after any white space, by
  \<open>mph\<close> in either case; a run that fails fails from each of its later digits too.
\<close>

fun extractWindSpeed :: "string \<Rightarrow> nat" where
  "extractWindSpeed [] = 0"
| "extractWindSpeed (c # cs) =
     (if isDigit c
         \<and> startsWith (toLowerCase (dropWhile isWhiteSpace (dropWhile isDigit (c # cs)))) ''mph''
      then digitsValue (takeWhile isDigit (c # cs))
      else extractWindSpeed cs)"

text \<open>\<open>/(\d+)/\<close>: the first run of digits, 70 when there is none.\<close>

definition extractTemperature :: "string \<Rightarrow> nat" where
  "extractTemperature tempString =
     (let r = dropWhile (\<lambda>c. \<not> isDigit c) tempString
      in if r = [] then 70 else digitsValue (takeWhile isDigit r))"

text \<open>A string method called on a truthy value that is not a string is a \<open>TypeError\<close>.\<close>

definition assessWeatherImpact :: "jsval \<Rightarrow> js_error + jsval" where
  "assessWeatherImpact weather =
     bind_result
       (if truthy (js_prop weather ''condition'') then
          (case js_prop weather ''condition'' of
             Str s \<Rightarrow> Inr (if includes_str (toLowerCase s) ''rain''
                         then [Str ''Rain may affect play''] else [])
           | _ \<Rightarrow> Inl (TypeError ''weather.condition.toLowerCase is not a function''))
        else Inr []) (\<lambda>rain.
     bind_result
       (if truthy (js_prop weather ''wind'') then
          (case js_prop weather ''wind'' of
             Str s \<Rightarrow> Inr (if extractWindSpeed s > 15
                         then [Str ''Strong wind may affect ball flight''] else [])
           | _ \<Rightarrow> Inl (TypeError ''windString.match is not a function''))
        else Inr []) (\<lambda>wind.
     bind_result
       (if truthy (js_prop weather ''temp'') then
          (case js_prop weather ''temp'' of
             Str s \<Rightarrow> Inr (if extractTemperature s < 50
                         then [Str ''Cold weather may reduce offensive production'']
                         else if extractTemperature s > 85
                         then [Str ''Hot weather may favor hitters''] else [])
           | _ \<Rightarrow> Inl (TypeError ''tempString.match is not a function''))
        else Inr []) (\<lambda>temp.
       let impacts = rain @ wind @ temp
       in Inr (Arr (if length impacts > 0 then impacts
                    else [Str ''Minimal weather impact expected''])))))"

definition formatWeather :: "jsval \<Rightarrow> js_error + jsval" where
  "formatWeather weather =
     (if \<not> truthy weather then Inr Null
      else bind_result (assessWeatherImpact weather) (\<lambda>impact.
        Inr (Obj [
          (''condition'', field_or weather ''condition'' (Str ''Unknown'')),
          (''temperature'', field_or weather ''temp'' (Str ''Unknown'')),
          (''wind'', field_or weather ''wind'' (Str ''Unknown'')),
          (''impact'', impact)])))"

definition keyPositions :: "string list" where
  "keyPositions = [''C'', ''1B'', ''SS'', ''CF'', ''SP'', ''CL'']"

definition assessInjuryImpact :: "jsval \<Rightarrow> string" where
  "assessInjuryImpact injury =
     (case js_prop injury ''position'' of
        Str p \<Rightarrow> if List.member keyPositions p then ''High impact'' else ''Moderate impact''
      | _ \<Rightarrow> ''Moderate impact'')"

definition formatInjury :: "jsval \<Rightarrow> js_error + jsval" where
  "formatInjury injury =
     (if nullish injury then Inl (cannot_read injury ''player'')
      else Inr (Obj [
        (''player'', js_prop injury ''player''),
        (''position'', js_prop injury ''position''),
        (''injury'', js_prop injury ''injury''),
        (''status'', js_prop injury ''status''),
        (''impact'', Str (assessInjuryImpact injury))]))"

definition formatTeamInjuries :: "jsval \<Rightarrow> js_error + jsval" where
  "formatTeamInjuries injuries =
     (if \<not> truthy injuries \<or> \<not> truthy (js_prop injuries ''injuries'')
         \<or> strict_eq (js_prop (js_prop injuries ''injuries'') ''length'') (num 0)
      then Inr (Obj [(''available'', Bool False), (''count'', num 0)])
      else case js_prop injuries ''injuries'' of
        Arr xs \<Rightarrow>
          bind_result (map_result formatInjury xs) (\<lambda>keyInjuries.
            Inr (Obj [
              (''available'', Bool True),
              (''count'', num (of_nat (length xs))),
              (''keyInjuries'', Arr keyInjuries)]))
      | _ \<Rightarrow> Inl (TypeError ''injuries.injuries.map is not a function''))"

definition formatInjuries :: "jsval \<Rightarrow> jsval \<Rightarrow> js_error + jsval" where
  "formatInjuries giantsInjuries opponentInjuries =
     bind_result (formatTeamInjuries giantsInjuries) (\<lambda>giants.
     bind_result (formatTeamInjuries opponentInjuries) (\<lambda>opponent.
       Inr (Obj [(''giants'', giants), (''opponent'', opponent)])))"

subsection \<open>formatHeadToHead\<close>

text \<open>
  The class body declares \<open>formatHeadToHead\<close> twice. The first declaration (line 444)
  degrades to \<open>{available: false}\<close> and counts the wins of a schedule response.
\<close>

fun headToHead_wins ::
  "(rat \<Rightarrow> string) \<Rightarrow> nat \<times> nat \<Rightarrow> jsval list \<Rightarrow> js_error + nat \<times> nat" where
  "headToHead_wins nf (giantsWins, opponentWins) [] = Inr (giantsWins, opponentWins)"
| "headToHead_wins nf (giantsWins, opponentWins) (game # games) =
     bind_result (isHome_of giantsTeamId game) (\<lambda>isHome.
     bind_result (teamScore_of isHome game) (\<lambda>giantsScore.
     bind_result (opponentScore_of isHome game) (\<lambda>opponentScore.
       headToHead_wins nf
         (if js_gt nf giantsScore opponentScore then (giantsWins + 1, opponentWins)
          else if js_gt nf opponentScore giantsScore then (giantsWins, opponentWins + 1)
          else (giantsWins, opponentWins)) games)))"

definition calculateHeadToHeadTrend :: "(rat \<Rightarrow> string) \<Rightarrow> jsval list \<Rightarrow> js_error + string" where
  "calculateHeadToHeadTrend nf games =
     (if length games < 3 then Inr ''Insufficient data''
      else bind_result (headToHead_wins nf (0, 0) (take 3 games)) (\<lambda>(giantsWins, opponentWins).
        if giantsWins \<ge> 2 then Inr ''Giants favored recently''
        else if giantsWins \<le> 1 then Inr ''Opponent favored recently''
        else Inr ''Even recent trend''))"

text \<open>
  \<open>dates.flatMap(date => date.games)\<close>: each \<open>games\<close> array is spliced in, any other value
  is one element.
\<close>

fun flatMap_games :: "jsval list \<Rightarrow> js_error + jsval list" where
  "flatMap_games [] = Inr []"
| "flatMap_games (date # dates) =
     bind_result (js_get date ''games'') (\<lambda>g.
     bind_result (flatMap_games dates) (\<lambda>rest.
       Inr ((case g of Arr xs \<Rightarrow> xs | _ \<Rightarrow> [g]) @ rest)))"

definition formatHeadToHead_first :: "(rat \<Rightarrow> string) \<Rightarrow> jsval \<Rightarrow> js_error + jsval" where
  "formatHeadToHead_first nf headToHead =
     (if \<not> truthy headToHead \<or> \<not> truthy (js_prop headToHead ''dates'') then Inr unavailable
      else case js_prop headToHead ''dates'' of
        Arr dates \<Rightarrow>
          bind_result (flatMap_games dates) (\<lambda>games.
          bind_result (headToHead_wins nf (0, 0) games) (\<lambda>(giantsWins, opponentWins).
          bind_result (calculateHeadToHeadTrend nf games) (\<lambda>recentTrend.
            Inr (Obj [
              (''available'', Bool True),
              (''gamesPlayed'', num (of_nat (length games))),
              (''giantsWins'', num (of_nat giantsWins)),
              (''opponentWins'', num (of_nat opponentWins)),
              (''recentTrend'', Str recentTrend)]))))
      | _ \<Rightarrow> Inl (TypeError ''headToHead.dates.flatMap is not a function''))"

text \<open>
  The second declaration (line 516), written for the head-to-head analysis tool, has
  the same name; in a class body the later declaration replaces the earlier one, so
  this is the method that \<open>this.formatHeadToHead\<close> calls, from \<open>formatGameData\<close> too.
\<close>

definition formatHeadToHead :: "jsval \<Rightarrow> js_error + jsval" where
  "formatHeadToHead data =
     bind_result (js_get data ''headToHeadGames'') (\<lambda>games.
       Inr (Obj [
         (''games'', games),
         (''team1'', js_prop data ''team1Stats''),
         (''team2'', js_prop data ''team2Stats''),
         (''season'', js_prop data ''season'')]))"

subsection \<open>formatGameData\<close>

text \<open>
  The four mandatory blocks are built in the order of the object literal; the optional
  blocks are added afterwards. \<open>options\<close> defaults to \<open>{}\<close> when it is \<open>undefined\<close>.
\<close>

definition formatGameData :: "(rat \<Rightarrow> string) \<Rightarrow> jsval \<Rightarrow> jsval \<Rightarrow> js_error + jsval" where
  "formatGameData nf rawData options0 =
     (let options = (if options0 = Undefined then Obj [] else options0)
      in if nullish rawData
         then Inl (TypeError (''Cannot destructure property '' @ [CHR 0x27] @ ''game'' @ [CHR 0x27]
                    @ '' of '' @ [CHR 0x27] @ ''rawData'' @ [CHR 0x27] @ '' as it is ''
                    @ (if rawData = Null then ''null'' else ''undefined'') @ ''.''))
         else
           let game = js_prop rawData ''game'';
               opponent = js_prop rawData ''opponent'';
               isHomeGame = js_prop rawData ''isHomeGame'';
               giantsStats = js_prop rawData ''giantsStats'';
               opponentStats = js_prop rawData ''opponentStats'';
               giantsRecentGames = js_prop rawData ''giantsRecentGames'';
               opponentRecentGames = js_prop rawData ''opponentRecentGames'';
               headToHead = js_prop rawData ''headToHead'';
               probablePitchers = js_prop rawData ''probablePitchers'';
               homePitcherStats = js_prop rawData ''homePitcherStats'';
               awayPitcherStats = js_prop rawData ''awayPitcherStats'';
               weather = js_prop rawData ''weather'';
               giantsInjuries = js_prop rawData ''giantsInjuries'';
               opponentInjuries = js_prop rawData ''opponentInjuries''
           in
           bind_result (formatGameContext game opponent isHomeGame) (\<lambda>gameContext.
           bind_result (formatTeamStats nf giantsStats opponentStats) (\<lambda>teamStats.
           bind_result (formatRecentPerformance nf giantsRecentGames opponentRecentGames)
             (\<lambda>recentPerformance.
           bind_result (formatPitchingMatchup nf probablePitchers homePitcherStats
                          awayPitcherStats isHomeGame) (\<lambda>pitchingMatchup.
           bind_result (js_get options ''includeWeather'') (\<lambda>includeWeather.
           bind_result
             (if \<not> strict_eq includeWeather (Bool False) \<and> truthy weather
              then bind_result (formatWeather weather) (\<lambda>w. Inr [(''weather'', w)])
              else Inr []) (\<lambda>weatherBlock.
           bind_result
             (if \<not> strict_eq (js_prop options ''includeInjuries'') (Bool False)
                 \<and> truthy (or_else giantsInjuries opponentInjuries)
              then bind_result (formatInjuries giantsInjuries opponentInjuries)
                     (\<lambda>i. Inr [(''injuries'', i)])
              else Inr []) (\<lambda>injuriesBlock.
           bind_result
             (if truthy headToHead
              then bind_result (formatHeadToHead headToHead) (\<lambda>h. Inr [(''headToHead'', h)])
              else Inr []) (\<lambda>headToHeadBlock.
             Inr (Obj ([
               (''gameContext'', gameContext),
               (''teamStats'', teamStats),
               (''recentPerformance'', recentPerformance),
               (''pitchingMatchup'', pitchingMatchup)]
               @ weatherBlock @ injuriesBlock @ headToHeadBlock)))))))))))"

section \<open>RequestOrchestrator: getGiantsGamePreview of the MCP server (server.js)\<close>

text \<open>\<open>obj[k] = v\<close>: the value of an existing key is replaced, a new key is appended.\<close>

fun set_field :: "(string \<times> jsval) list \<Rightarrow> string \<Rightarrow> jsval \<Rightarrow> (string \<times> jsval) list" where
  "set_field [] k v = [(k, v)]"
| "set_field ((k', v') # kvs) k v =
     (if k' = k then (k, v) # kvs else (k', v') # set_field kvs k v)"

definition has_key :: "jsval \<Rightarrow> string \<Rightarrow> bool" where
  "has_key v k = (case v of Obj kvs \<Rightarrow> map_of kvs k \<noteq> None | _ \<Rightarrow> False)"

text \<open>
  The configuration constants, and what the collaborators do during one request: each
  call of the sports-data client and of the LLM analyzer either returns a value or
  rejects with an error. The response parser and \<open>JSON.stringify\<close> are parameters as
  well; the clock is read for the cache check (\<open>now_check\<close>), the cache write
  (\<open>now_store\<close>), the default date (\<open>today\<close>) and the metadata (\<open>generatedAt\<close>).
\<close>

record server_config =
  cfg_giantsTeamId :: jsval
  cfg_enableCaching :: bool
  cfg_cacheTimeout :: int
  cfg_llmProvider :: string


record collaborators =
  getTeamSchedule :: "jsval \<Rightarrow> jsval \<Rightarrow> js_error + jsval"
  getTeamStats :: "jsval \<Rightarrow> js_error + jsval"
  getRecentGames :: "jsval \<Rightarrow> js_error + jsval"
  getHeadToHeadRecord :: "jsval \<Rightarrow> jsval \<Rightarrow> js_error + jsval"
  getTeamRoster :: "jsval \<Rightarrow> js_error + jsval"
  getGameFeed :: "jsval \<Rightarrow> js_error + jsval"
  getPlayerStats :: "jsval \<Rightarrow> js_error + jsval"
  getGameWeather :: "jsval \<Rightarrow> js_error + jsval"
  getInjuryReport :: "jsval \<Rightarrow> js_error + jsval"
  analyzeGameData :: "jsval \<Rightarrow> jsval \<Rightarrow> js_error + jsval"
  parseGameAnalysis :: "jsval \<Rightarrow> js_error + jsval"
  stringify :: "jsval \<Rightarrow> string"
  numberFormat :: "rat \<Rightarrow> string"
  now_check :: int
  now_store :: int
  today :: string
  generatedAt :: string

text \<open>
  \<open>Promise.all\<close> over calls that have all been started: the values in order when every
  call fulfils, a rejection otherwise. When several reject, JavaScript reports the one
  that rejects first in time; the model reports the first in array order.
\<close>

fun promise_all :: "(js_error + jsval) list \<Rightarrow> js_error + jsval list" where
  "promise_all [] = Inr []"
| "promise_all (Inl e # ps) = Inl e"
| "promise_all (Inr v # ps) = bind_result (promise_all ps) (\<lambda>vs. Inr (v # vs))"

text \<open>\<open>try { data.k = await f() } catch { log }\<close>: a rejection leaves \<open>data\<close> as it was.\<close>

definition try_set ::
  "(string \<times> jsval) list \<Rightarrow> string \<Rightarrow> js_error + jsval \<Rightarrow> (string \<times> jsval) list" where
  "try_set data k r = (case r of Inl e \<Rightarrow> data | Inr v \<Rightarrow> set_field data k v)"

text \<open>
  The pitcher block of \<open>fetchComprehensiveGameData\<close>: the game feed and the two pitcher
  statistics are awaited without a \<open>try\<close> of their own.
\<close>

definition fetchPitchers ::
  "collaborators \<Rightarrow> jsval \<Rightarrow> (string \<times> jsval) list \<Rightarrow> js_error + (string \<times> jsval) list" where
  "fetchPitchers env game data =
     bind_result (getGameFeed env (js_prop game ''gamePk'')) (\<lambda>gameFeed.
       if truthy gameFeed \<and> truthy (js_prop gameFeed ''gameData'')
          \<and> truthy (js_prop (js_prop gameFeed ''gameData'') ''probablePitchers'')
       then
         let probablePitchers = js_prop (js_prop gameFeed ''gameData'') ''probablePitchers'';
             data1 = set_field data ''probablePitchers'' probablePitchers
         in bind_result
              (if truthy (js_prop probablePitchers ''home'')
               then bind_result
                      (getPlayerStats env (js_prop (js_prop probablePitchers ''home'') ''id''))
                      (\<lambda>s. Inr (set_field data1 ''homePitcherStats'' s))
               else Inr data1) (\<lambda>data2.
              if truthy (js_prop probablePitchers ''away'')
              then bind_result
                     (getPlayerStats env (js_prop (js_prop probablePitchers ''away'') ''id''))
                     (\<lambda>s. Inr (set_field data2 ''awayPitcherStats'' s))
              else Inr data2)
       else Inr data)"

text \<open>
  The best-effort block: the weather in a \<open>try\<close> of its own; the two injury reports
  share one \<open>try\<close>, so the opponent's report is not requested once the Giants' one has
  failed.
\<close>

definition fetchBestEffort ::
  "collaborators \<Rightarrow> server_config \<Rightarrow> jsval \<Rightarrow> jsval \<Rightarrow> (string \<times> jsval) list
     \<Rightarrow> (string \<times> jsval) list" where
  "fetchBestEffort env config game opponent data =
     (let data1 = try_set data ''weather'' (getGameWeather env (js_prop game ''gamePk''))
      in case getInjuryReport env (cfg_giantsTeamId config) of
           Inl e \<Rightarrow> data1
         | Inr giantsInjuries \<Rightarrow>
             try_set (set_field data1 ''giantsInjuries'' giantsInjuries) ''opponentInjuries''
               (getInjuryReport env (js_prop opponent ''id'')))"

text \<open>
  \<open>fetchComprehensiveGameData\<close>, block by block. First the game of the date: \<open>None\<close> when
  the schedule has none.
\<close>

definition findGame :: "jsval \<Rightarrow> js_error + jsval option" where
  "findGame schedule =
     (if \<not> truthy schedule \<or> \<not> truthy (js_prop schedule ''dates'')
         \<or> strict_eq (js_prop (js_prop schedule ''dates'') ''length'') (num 0)
      then Inr None
      else bind_result (js_path schedule [Key ''dates'', Idx 0, Key ''games'', Idx 0]) (\<lambda>game.
             if \<not> truthy game then Inr None else Inr (Some game)))"

text \<open>The fields taken from the game, with the opponent determined.\<close>

definition determineOpponent ::
  "server_config \<Rightarrow> jsval \<Rightarrow> js_error + jsval \<times> (string \<times> jsval) list" where
  "determineOpponent config game =
     bind_result (js_path game [Key ''teams'', Key ''home'', Key ''team'']) (\<lambda>homeTeam.
     bind_result (js_path game [Key ''teams'', Key ''away'', Key ''team'']) (\<lambda>awayTeam.
     bind_result (js_get homeTeam ''id'') (\<lambda>homeId.
       let opponent = (if strict_eq homeId (cfg_giantsTeamId config) then awayTeam else homeTeam)
       in Inr (opponent, [
            (''gameFound'', Bool True),
            (''game'', game),
            (''homeTeam'', homeTeam),
            (''awayTeam'', awayTeam),
            (''venue'', js_prop game ''venue''),
            (''opponent'', opponent),
            (''isHomeGame'', Bool (strict_eq homeId (cfg_giantsTeamId config)))]))))"

text \<open>The seven parallel fetches, joined by \<open>Promise.all\<close>.\<close>

definition fetchParallel ::
  "collaborators \<Rightarrow> server_config \<Rightarrow> jsval \<Rightarrow> js_error + (string \<times> jsval) list" where
  "fetchParallel env config opponent =
     bind_result (js_get opponent ''id'') (\<lambda>opponentId.
     bind_result
       (promise_all [
          getTeamStats env (cfg_giantsTeamId config),
          getTeamStats env opponentId,
          getRecentGames env (cfg_giantsTeamId config),
          getRecentGames env opponentId,
          getHeadToHeadRecord env (cfg_giantsTeamId config) opponentId,
          getTeamRoster env (cfg_giantsTeamId config),
          getTeamRoster env opponentId]) (\<lambda>fetched.
       Inr (zip [''giantsStats'', ''opponentStats'', ''giantsRecentGames'',
                 ''opponentRecentGames'', ''headToHead'', ''giantsRoster'',
                 ''opponentRoster''] fetched)))"

text \<open>
  Everything that is awaited outside a \<open>try\<close> of its own: the schedule, the parallel
  fetches, the game feed and the pitcher statistics. The result is the game, the
  opponent and the data gathered so far, or \<open>None\<close> when no game was found.
\<close>

definition mandatoryData ::
  "collaborators \<Rightarrow> server_config \<Rightarrow> jsval
     \<Rightarrow> js_error + (jsval \<times> jsval \<times> (string \<times> jsval) list) option" where
  "mandatoryData env config date =
     bind_result (getTeamSchedule env (cfg_giantsTeamId config) date) (\<lambda>schedule.
     bind_result (findGame schedule) (\<lambda>found.
       case found of
         None \<Rightarrow> Inr None
       | Some game \<Rightarrow>
           bind_result (determineOpponent config game) (\<lambda>(opponent, data).
           bind_result (fetchParallel env config opponent) (\<lambda>parallel.
           bind_result (fetchPitchers env game (data @ parallel)) (\<lambda>data1.
             Inr (Some (game, opponent, data1)))))))"

text \<open>
  The outer \<open>catch\<close> logs and rethrows, so an error of the mandatory part is the
  function's error; the best-effort block cannot raise one.
\<close>

definition fetchComprehensiveGameData ::
  "collaborators \<Rightarrow> server_config \<Rightarrow> jsval \<Rightarrow> js_error + jsval" where
  "fetchComprehensiveGameData env config date =
     bind_result (mandatoryData env config date) (\<lambda>r.
       case r of
         None \<Rightarrow> Inr (Obj [(''gameFound'', Bool False)])
       | Some (game, opponent, data1) \<Rightarrow>
           Inr (Obj (fetchBestEffort env config game opponent data1)))"















subsection \<open>The partial-failure policy\<close>



lemma fetch_mandatory_error:
  "mandatoryData env config gameDate = Inl e
     \<Longrightarrow> fetchComprehensiveGameData env config gameDate = Inl e"
  by (simp add: fetchComprehensiveGameData_def bind_result_def)




















section \<open>A worked request\<close>

text \<open>
  A home game against the Dodgers: the schedule, the team statistics (records 45-42 and
  52-35), empty recent-game lists, a head-to-head schedule response without games, no
  probable pitchers; the weather request times out and no injury report is available.
\<close>

definition demo_stats :: "rat \<Rightarrow> rat \<Rightarrow> jsval" where
  "demo_stats w l =
     Obj [(''stats'', Arr [Obj [(''splits'', Arr [Obj [(''stat'',
       Obj [(''wins'', num w), (''losses'', num l), (''ops'', Str ''.712'')])]])]])]"

definition demo_giants :: jsval where
  "demo_giants = Obj [(''id'', num 137), (''name'', Str ''San Francisco Giants'')]"

definition demo_opponent :: jsval where
  "demo_opponent = Obj [(''id'', num 119), (''name'', Str ''Los Angeles Dodgers'')]"

definition demo_game :: jsval where
  "demo_game = Obj [
     (''gamePk'', num 745123),
     (''gameDate'', Str ''2024-07-04T20:05:00Z''),
     (''venue'', Obj [(''name'', Str ''Oracle Park'')]),
     (''teams'', Obj [
        (''home'', Obj [(''team'', demo_giants),
                        (''leagueRecord'', Obj [(''wins'', num 45), (''losses'', num 42)])]),
        (''away'', Obj [(''team'', demo_opponent),
                        (''leagueRecord'', Obj [(''wins'', num 52), (''losses'', num 35)])])])]"




definition demo_data1 :: "(string \<times> jsval) list" where
  "demo_data1 = [
     (''gameFound'', Bool True),
     (''game'', demo_game),
     (''homeTeam'', demo_giants),
     (''awayTeam'', demo_opponent),
     (''venue'', Obj [(''name'', Str ''Oracle Park'')]),
     (''opponent'', demo_opponent),
     (''isHomeGame'', Bool True),
     (''giantsStats'', demo_stats 45 42),
     (''opponentStats'', demo_stats 52 35),
     (''giantsRecentGames'', Arr []),
     (''opponentRecentGames'', Arr []),
     (''headToHead'', Obj [(''dates'', Arr [])]),
     (''giantsRoster'', Obj [(''roster'', Arr [])]),
     (''opponentRoster'', Obj [(''roster'', Arr [])])]"

definition demo_team_block :: "rat \<Rightarrow> rat \<Rightarrow> jsval" where
  "demo_team_block w l = Obj [
     (''available'', Bool True),
     (''record'', Obj [(''wins'', num w), (''losses'', num l), (''winPercentage'', Str ''0.000'')]),
     (''offense'', Obj [
        (''runsPerGame'', num 0), (''homeRuns'', num 0), (''battingAverage'', Str ''0.000''),
        (''onBasePercentage'', Str ''0.000''), (''sluggingPercentage'', Str ''0.000''),
        (''ops'', Str ''.712'')]),
     (''pitching'', Obj [
        (''earnedRunAverage'', num 0), (''whip'', num 0), (''strikeOuts'', num 0),
        (''homeRunsAllowed'', num 0), (''qualityStarts'', num 0), (''saves'', num 0)]),
     (''fielding'', Obj [
        (''errors'', num 0), (''fieldingPercentage'', Str ''0.000''), (''doublePlays'', num 0)]),
     (''situational'', Obj [
        (''homeRecord'', Str ''N/A''), (''awayRecord'', Str ''N/A''), (''last10'', Str ''N/A''),
        (''oneRunGames'', Str ''N/A'')])]"

definition demo_payload :: jsval where
  "demo_payload = Obj [
     (''gameContext'', Obj [
        (''date'', Str ''2024-07-04T20:05:00Z''),
        (''venue'', Str ''Oracle Park''),
        (''isHomeGame'', Bool True),
        (''opponent'', Obj [
           (''name'', Str ''Los Angeles Dodgers''),
           (''id'', num 119),
           (''record'', Obj [(''wins'', num 52), (''losses'', num 35)])]),
        (''giants'', Obj [(''record'', Obj [(''wins'', num 45), (''losses'', num 42)])]),
        (''gameType'', Undefined),
        (''gameNumber'', Undefined),
        (''seriesInfo'', Obj [
           (''gamesInSeries'', Undefined),
           (''seriesGameNumber'', Undefined),
           (''seriesDescription'', Undefined)])]),
     (''teamStats'', Obj [
        (''giants'', demo_team_block 45 42),
        (''opponent'', demo_team_block 52 35),
        (''comparison'', Obj [
           (''available'', Bool True),
           (''offensiveAdvantage'', Str ''Even''),
           (''pitchingAdvantage'', Str ''Opponent''),
           (''recordAdvantage'', Str ''Even''),
           (''homeFieldAdvantage'', Str ''Neutral'')])]),
     (''recentPerformance'', Obj [
        (''giants'', Obj [(''available'', Bool False)]),
        (''opponent'', Obj [(''available'', Bool False)])]),
     (''pitchingMatchup'', Obj [(''available'', Bool False)]),
     (''headToHead'', Obj [
        (''games'', Undefined), (''team1'', Undefined), (''team2'', Undefined),
        (''season'', Undefined)])]"

lemmas js_eval =
  num_def or_else_def bind_result_def nullish_def cannot_read_def js_prop_def js_get_def
  elem_def js_at_def read_def field_or_def unavailable_def giantsTeamId_def
  char_of_eq_iff Let_def







lemma demo_extract:
  "extractKeyTeamStats nf (demo_stats w l) = Inr (demo_team_block w l)"
  by (simp add: extractKeyTeamStats_def demo_stats_def demo_team_block_def pair_or_NA_def js_eval)

lemma demo_context:
  "formatGameContext demo_game demo_opponent (Bool True)
     = Inr (read demo_payload [''gameContext''])"
  by (simp add: formatGameContext_def demo_game_def demo_opponent_def demo_giants_def
      demo_payload_def js_eval)

lemma demo_compare:
  "compareTeamStats nf (demo_stats 45 42) (demo_stats 52 35)
     = Inr (read demo_payload [''teamStats'', ''comparison''])"
  by (simp add: compareTeamStats_def demo_extract demo_team_block_def demo_payload_def
      calculateAdvantage_def num_sub_def num_gt_def js_eval)

lemma demo_format:
  "formatGameData nf (Obj demo_data1) (Obj []) = Inr demo_payload"
proof -
  have ts: "formatTeamStats nf (demo_stats 45 42) (demo_stats 52 35)
      = Inr (read demo_payload [''teamStats''])"
    by (simp add: formatTeamStats_def demo_extract demo_compare bind_result_def)
       (simp add: demo_payload_def read_def js_prop_def)
  have rp: "formatRecentPerformance nf (Arr []) (Arr [])
      = Inr (read demo_payload [''recentPerformance''])"
    by (simp add: formatRecentPerformance_def analyzeRecentGames_def demo_payload_def js_eval)
  have pm: "formatPitchingMatchup nf Undefined Undefined Undefined (Bool True)
      = Inr (read demo_payload [''pitchingMatchup''])"
    by (simp add: formatPitchingMatchup_def demo_payload_def js_eval)
  have hh: "formatHeadToHead (Obj [(''dates'', Arr [])]) = Inr (read demo_payload [''headToHead''])"
    by (simp add: formatHeadToHead_def demo_payload_def js_eval)
  have look: "js_prop (Obj demo_data1) ''game'' = demo_game"
    "js_prop (Obj demo_data1) ''opponent'' = demo_opponent"
    "js_prop (Obj demo_data1) ''isHomeGame'' = Bool True"
    "js_prop (Obj demo_data1) ''giantsStats'' = demo_stats 45 42"
    "js_prop (Obj demo_data1) ''opponentStats'' = demo_stats 52 35"
    "js_prop (Obj demo_data1) ''giantsRecentGames'' = Arr []"
    "js_prop (Obj demo_data1) ''opponentRecentGames'' = Arr []"
    "js_prop (Obj demo_data1) ''headToHead'' = Obj [(''dates'', Arr [])]"
    "js_prop (Obj demo_data1) ''probablePitchers'' = Undefined"
    "js_prop (Obj demo_data1) ''homePitcherStats'' = Undefined"
    "js_prop (Obj demo_data1) ''awayPitcherStats'' = Undefined"
    "js_prop (Obj demo_data1) ''weather'' = Undefined"
    "js_prop (Obj demo_data1) ''giantsInjuries'' = Undefined"
    "js_prop (Obj demo_data1) ''opponentInjuries'' = Undefined"
    by (simp_all add: demo_data1_def js_prop_def)
  have "formatGameData nf (Obj demo_data1) (Obj [])
      = Inr (Obj [(''gameContext'', read demo_payload [''gameContext'']),
                  (''teamStats'', read demo_payload [''teamStats'']),
                  (''recentPerformance'', read demo_payload [''recentPerformance'']),
                  (''pitchingMatchup'', read demo_payload [''pitchingMatchup'']),
                  (''headToHead'', read demo_payload [''headToHead''])])"
    unfolding formatGameData_def Let_def look
    by (simp add: demo_context ts rp pm hh bind_result_def nullish_def js_get_def or_else_def)
  also have "\<dots> = Inr demo_payload"
    by (simp add: demo_payload_def read_def js_prop_def)
  finally show ?thesis .
qed







section \<open>Claims about the formatter\<close>

lemma extractKeyTeamStats_degrades:
  assumes "js_prop teamStats ''stats'' = Undefined \<or> js_prop teamStats ''stats'' = Arr []"
  shows "extractKeyTeamStats nf teamStats = Inr (Obj [(''available'', Bool False)])"
  using assms by (auto simp: extractKeyTeamStats_def unavailable_def js_prop_def num_def)

text \<open>
  C1. \<open>extractKeyTeamStats\<close> answers \<open>{available: false}\<close> when \<open>stats\<close> is missing or
  empty (\<open>extractKeyTeamStats_degrades\<close>), but for a first stats entry whose \<open>splits\<close>
  array is empty it throws: \<open>splits[0]\<close> is \<open>undefined\<close> and \<open>.stat\<close> is read from it. On
  the same input \<open>comparePitchers\<close>, which reads the chain with \<open>?.\<close>, degrades.
\<close>

theorem extractKeyTeamStats_empty_splits:
  "extractKeyTeamStats nf (Obj [(''stats'', Arr [Obj [(''splits'', Arr [])]])])
     = Inl (cannot_read Undefined ''stat'')
   \<and> comparePitchers nf (Obj [(''stats'', Arr [Obj [(''splits'', Arr [])]])])
        (Obj [(''stats'', Arr [Obj [(''splits'', Arr [])]])])
     = Obj [(''available'', Bool False)]"
  by (simp add: extractKeyTeamStats_def comparePitchers_def unavailable_def js_prop_def num_def
      bind_result_def js_get_def js_at_def elem_def nullish_def)

theorem extractKeyTeamStats_empty_splits_witness:
  "extractKeyTeamStats (\<lambda>q. []) (Obj [(''stats'', Arr [Obj [(''splits'', Arr [])]])])
     = Inl (TypeError (''Cannot read properties of undefined (reading '' @ [CHR 0x27]
              @ ''stat'' @ [CHR 0x27] @ '')''))
   \<and> extractKeyTeamStats (\<lambda>q. []) (Obj [(''stats'', Arr [Obj [(''splits'', Arr [])]])])
     \<noteq> Inr (Obj [(''available'', Bool False)])"
  using extractKeyTeamStats_empty_splits [of "\<lambda>q. []"] by (simp add: cannot_read_def)

text \<open>
  C2. On the worked request \<open>formatGameData\<close> returns a payload whose \<open>headToHead\<close> block
  has no \<open>available\<close> flag and holds \<open>undefined\<close> under each of its four keys: the call
  reaches the second declaration of \<open>formatHeadToHead\<close>, which reads keys a schedule
  response does not have. The first declaration would have answered with a summary
  carrying the flag. With team statistics whose \<open>splits\<close> array is empty the team
  block throws instead of degrading.
\<close>

theorem formatGameData_headToHead_shadowed:
  "formatGameData nf (Obj demo_data1) (Obj []) = Inr demo_payload
   \<and> js_prop demo_payload ''headToHead''
       = Obj [(''games'', Undefined), (''team1'', Undefined), (''team2'', Undefined),
              (''season'', Undefined)]
   \<and> \<not> has_key (js_prop demo_payload ''headToHead'') ''available''
   \<and> formatHeadToHead_first nf (js_prop (Obj demo_data1) ''headToHead'')
       = Inr (Obj [(''available'', Bool True), (''gamesPlayed'', num 0), (''giantsWins'', num 0),
                   (''opponentWins'', num 0), (''recentTrend'', Str ''Insufficient data'')])
   \<and> formatTeamStats nf (Obj [(''stats'', Arr [Obj [(''splits'', Arr [])]])]) (demo_stats 52 35)
       = Inl (cannot_read Undefined ''stat'')"
proof -
  have a: "js_prop demo_payload ''headToHead''
       = Obj [(''games'', Undefined), (''team1'', Undefined), (''team2'', Undefined),
              (''season'', Undefined)]"
    by (simp add: demo_payload_def js_prop_def)
  have b: "\<not> has_key (js_prop demo_payload ''headToHead'') ''available''"
    unfolding a by (simp add: has_key_def)
  have c: "formatHeadToHead_first nf (js_prop (Obj demo_data1) ''headToHead'')
       = Inr (Obj [(''available'', Bool True), (''gamesPlayed'', num 0), (''giantsWins'', num 0),
                   (''opponentWins'', num 0), (''recentTrend'', Str ''Insufficient data'')])"
    by (simp add: demo_data1_def formatHeadToHead_first_def calculateHeadToHeadTrend_def
        js_prop_def bind_result_def)
  have d: "formatTeamStats nf (Obj [(''stats'', Arr [Obj [(''splits'', Arr [])]])]) (demo_stats 52 35)
       = Inl (cannot_read Undefined ''stat'')"
    by (simp add: formatTeamStats_def extractKeyTeamStats_def js_prop_def num_def
        bind_result_def js_get_def js_at_def elem_def nullish_def)
  from demo_format a b c d show ?thesis by blast
qed

theorem formatGameData_headToHead_shadowed_witness:
  "(case formatGameData (\<lambda>q. []) (Obj demo_data1) (Obj []) of
      Inr payload \<Rightarrow> js_prop (js_prop payload ''headToHead'') ''available''
    | Inl e \<Rightarrow> Null) = Undefined
   \<and> isl (formatTeamStats (\<lambda>q. []) (Obj [(''stats'', Arr [Obj [(''splits'', Arr [])]])])
        (demo_stats 52 35))"
  using formatGameData_headToHead_shadowed [of "\<lambda>q. []"] by (simp add: js_prop_def)






section \<open>Claims about the orchestrator\<close>








section \<open>ResponseParser.extractStructuredSections (response-parser.js)\<close>

text \<open>
  The eight section patterns have one shape, with the flags \<open>i\<close> and \<open>s\<close>:
  \<open>##\<close>, white space, the heading words, a tail up to a line feed, a lazy capture, and
  the lookahead \<open>(?=##|$)\<close>. They are matched as the backtracking matcher does:
  leftmost start first, a greedy \<open>\s*\<close> as long as possible, a lazy \<open>.*?\<close> as short as
  possible.
\<close>

definition lineFeed :: char where
  "lineFeed = CHR 0x0A"

text \<open>The heading words at the start of a string, letters in either case; the rest.\<close>

fun match_ci :: "string \<Rightarrow> string \<Rightarrow> string option" where
  "match_ci [] s = Some s"
| "match_ci (p # ps) [] = None"
| "match_ci (p # ps) (c # cs) = (if toLowerChar c = toLowerChar p then match_ci ps cs else None)"

text \<open>
  \<open>\s*\n\<close>: the white-space run is taken whole and given back until a line feed
  follows, so the match ends after the last line feed of the run.
\<close>

fun after_last_newline :: "string \<Rightarrow> string option" where
  "after_last_newline [] = None"
| "after_last_newline (c # cs) =
     (if isWhiteSpace c then
        (case after_last_newline cs of
           Some r \<Rightarrow> Some r
         | None \<Rightarrow> if c = lineFeed then Some cs else None)
      else None)"

text \<open>\<open>.*?\n\<close>: up to the first line feed.\<close>

fun after_first_newline :: "string \<Rightarrow> string option" where
  "after_first_newline [] = None"
| "after_first_newline (c # cs) = (if c = lineFeed then Some cs else after_first_newline cs)"

text \<open>\<open>.*?Impact\s*\n\<close>: the first place where \<open>Impact\<close> and then \<open>\s*\n\<close> match.\<close>

fun after_impact :: "string \<Rightarrow> string option" where
  "after_impact [] = None"
| "after_impact (c # cs) =
     (case (case match_ci ''Impact'' (c # cs) of Some r \<Rightarrow> after_last_newline r | None \<Rightarrow> None) of
        Some r \<Rightarrow> Some r
      | None \<Rightarrow> after_impact cs)"

text \<open>\<open>(.*?)(?=##|$)\<close>: the text before the next \<open>##\<close>, or all of it.\<close>

fun until_marker :: "string \<Rightarrow> string" where
  "until_marker [] = []"
| "until_marker (c # cs) = (if startsWith (c # cs) ''##'' then [] else c # until_marker cs)"

datatype heading_tail = WhiteSpaceLine | RestOfLine | ThroughImpact

fun match_tail :: "heading_tail \<Rightarrow> string \<Rightarrow> string option" where
  "match_tail WhiteSpaceLine s = after_last_newline s"
| "match_tail RestOfLine s = after_first_newline s"
| "match_tail ThroughImpact s = after_impact s"

text \<open>The capture of a pattern matched at the very start of a string.\<close>

definition match_here :: "string \<Rightarrow> heading_tail \<Rightarrow> string \<Rightarrow> string option" where
  "match_here words tail s =
     (if startsWith s ''##'' then
        (case match_ci words (dropWhile isWhiteSpace (drop 2 s)) of
           Some r \<Rightarrow> (case match_tail tail r of Some r' \<Rightarrow> Some (until_marker r') | None \<Rightarrow> None)
         | None \<Rightarrow> None)
      else None)"

text \<open>\<open>analysis.match(pattern)\<close>: the capture at the leftmost start that matches.\<close>

fun first_match :: "string \<Rightarrow> heading_tail \<Rightarrow> string \<Rightarrow> string option" where
  "first_match words tail [] = None"
| "first_match words tail (c # cs) =
     (case match_here words tail (c # cs) of
        Some m \<Rightarrow> Some m
      | None \<Rightarrow> first_match words tail cs)"

definition sectionPatterns :: "(string \<times> string \<times> heading_tail) list" where
  "sectionPatterns = [
     (''gameOverview'', ''Game Overview'', WhiteSpaceLine),
     (''pitchingMatchup'', ''Pitching Matchup Analysis'', WhiteSpaceLine),
     (''offensiveMatchups'', ''Key Offensive Matchups'', WhiteSpaceLine),
     (''teamMomentum'', ''Team Momentum'', RestOfLine),
     (''strategicFactors'', ''Strategic Factors'', WhiteSpaceLine),
     (''keyPlayers'', ''Key Players'', RestOfLine),
     (''weatherVenue'', ''Weather'', ThroughImpact),
     (''prediction'', ''Prediction'', RestOfLine)]"

text \<open>
  A recovered section. \<open>extractBulletPoints\<close> and \<open>extractKeyTermsFromSection\<close> are
  applied to the captured text; they are parameters here.
\<close>

record parsed_section =
  content :: string
  bullets :: "string list"
  keyTerms :: "string list"

definition extractStructuredSections ::
  "(string \<Rightarrow> string list) \<Rightarrow> (string \<Rightarrow> string list) \<Rightarrow> string \<Rightarrow> (string \<times> parsed_section) list" where
  "extractStructuredSections extractBulletPoints extractKeyTermsFromSection analysis =
     concat (map (\<lambda>(name, words, tail).
       case first_match words tail analysis of
         Some m \<Rightarrow> [(name, \<lparr> content = trim m, bullets = extractBulletPoints m,
                             keyTerms = extractKeyTermsFromSection m \<rparr>)]
       | None \<Rightarrow> []) sectionPatterns)"


subsection \<open>Sections whose heading words are absent\<close>

lemma match_ci_words:
  "match_ci words s = Some r \<Longrightarrow> \<exists>pre. s = pre @ r \<and> toLowerCase pre = toLowerCase words"
proof (induction words s rule: match_ci.induct)
  case (1 s)
  then show ?case by (simp add: toLowerCase_def)
next
  case (2 p ps)
  then show ?case by simp
next
  case (3 p ps c cs)
  from "3.prems" have eq: "toLowerChar c = toLowerChar p" and m: "match_ci ps cs = Some r"
    by (auto split: if_splits)
  from "3.IH" [OF eq m] obtain pre where "cs = pre @ r" "toLowerCase pre = toLowerCase ps"
    by blast
  with eq have "c # cs = (c # pre) @ r \<and> toLowerCase (c # pre) = toLowerCase (p # ps)"
    by (simp add: toLowerCase_def)
  then show ?case by blast
qed

lemma match_here_words:
  assumes "match_here words tail s = Some m"
  shows "includes_str (toLowerCase s) (toLowerCase words)"
proof -
  from assms obtain r where "match_ci words (dropWhile isWhiteSpace (drop 2 s)) = Some r"
    by (auto simp: match_here_def split: if_splits option.splits)
  from match_ci_words [OF this] obtain pre where
    d: "dropWhile isWhiteSpace (drop 2 s) = pre @ r" and l: "toLowerCase pre = toLowerCase words"
    by blast
  have "s = take 2 s @ takeWhile isWhiteSpace (drop 2 s) @ dropWhile isWhiteSpace (drop 2 s)"
    by simp
  with d have "s = (take 2 s @ takeWhile isWhiteSpace (drop 2 s)) @ pre @ r" by simp
  then have "toLowerCase s
      = toLowerCase (take 2 s @ takeWhile isWhiteSpace (drop 2 s)) @ toLowerCase pre @ toLowerCase r"
    unfolding toLowerCase_def by (metis map_append)
  with l show ?thesis unfolding includes_str_iff by metis
qed

lemma includes_str_Cons: "includes_str cs w \<Longrightarrow> includes_str (c # cs) w"
  by simp

lemma first_match_words:
  "first_match words tail s = Some m \<Longrightarrow> includes_str (toLowerCase s) (toLowerCase words)"
proof (induction s)
  case Nil
  then show ?case by simp
next
  case (Cons c cs)
  show ?case
  proof (cases "match_here words tail (c # cs)")
    case (Some a)
    then show ?thesis by (rule match_here_words)
  next
    case None
    with Cons.prems have "first_match words tail cs = Some m" by simp
    from Cons.IH [OF this] have "includes_str (toLowerCase cs) (toLowerCase words)" .
    then show ?thesis by (simp add: toLowerCase_def)
  qed
qed

lemma first_match_marker:
  "first_match words tail s = Some m \<Longrightarrow> includes_str s ''##''"
proof (induction s)
  case Nil
  then show ?case by simp
next
  case (Cons c cs)
  show ?case
  proof (cases "match_here words tail (c # cs)")
    case (Some a)
    then have "startsWith (c # cs) ''##''" by (auto simp: match_here_def split: if_splits)
    then show ?thesis by (simp del: startsWith.simps)
  next
    case None
    with Cons.prems have "first_match words tail cs = Some m" by simp
    from Cons.IH [OF this] show ?thesis by simp
  qed
qed

lemma distinct_section_names: "distinct (map fst sectionPatterns)"
  by (simp add: sectionPatterns_def)

lemma section_absent:
  assumes p: "(name, words, tail) \<in> set sectionPatterns"
    and n: "first_match words tail analysis = None"
  shows "map_of (extractStructuredSections bf kf analysis) name = None"
proof -
  have "name \<notin> fst ` set (extractStructuredSections bf kf analysis)"
  proof
    assume "name \<in> fst ` set (extractStructuredSections bf kf analysis)"
    then obtain sec where "(name, sec) \<in> set (extractStructuredSections bf kf analysis)"
      by auto
    then obtain name' words' tail' where p': "(name', words', tail') \<in> set sectionPatterns"
      and e: "(name, sec) \<in> set (case first_match words' tail' analysis of
         Some m \<Rightarrow> [(name', \<lparr> content = trim m, bullets = bf m, keyTerms = kf m \<rparr>)]
       | None \<Rightarrow> [])"
      unfolding extractStructuredSections_def by auto
    from e have eq: "name' = name" and f: "first_match words' tail' analysis \<noteq> None"
      by (cases "first_match words' tail' analysis"; simp)+
    from distinct_section_names p p' eq have "(words', tail') = (words, tail)"
      by (metis eq_key_imp_eq_value)
    with f n show False by simp
  qed
  then show ?thesis by (simp add: map_of_eq_None_iff)
qed

lemma no_marker_no_sections:
  assumes "\<not> includes_str analysis ''##''"
  shows "extractStructuredSections bf kf analysis = []"
proof -
  have "first_match words tail analysis = None" for words tail
    using assms first_match_marker [of words tail analysis] by (cases "first_match words tail analysis") auto
  then show ?thesis by (simp add: extractStructuredSections_def sectionPatterns_def)
qed


subsection \<open>The sections of the prompt's template\<close>

text \<open>
  A section as the prompt asks for it: the heading on a line of its own after \<open>##\<close> and
  a space, then the section's text and a line feed. The eight headings are those of
  \<open>buildGameAnalysisPrompt\<close>.
\<close>

definition section_text :: "string \<Rightarrow> string \<Rightarrow> string" where
  "section_text heading body = ''## '' @ heading @ [lineFeed] @ body @ [lineFeed]"

definition template_text ::
  "string \<Rightarrow> string \<Rightarrow> string \<Rightarrow> string \<Rightarrow> string \<Rightarrow> string \<Rightarrow> string \<Rightarrow> string \<Rightarrow> string" where
  "template_text b1 b2 b3 b4 b5 b6 b7 b8 =
     section_text ''Game Overview'' b1
     @ section_text ''Pitching Matchup Analysis'' b2
     @ section_text ''Key Offensive Matchups'' b3
     @ section_text ''Team Momentum & Recent Form'' b4
     @ section_text ''Strategic Factors'' b5
     @ section_text ''Key Players to Watch'' b6
     @ section_text ''Weather/Venue Impact'' b7
     @ section_text ''Prediction & Narrative'' b8"

text \<open>Placeholder text: no \<open>##\<close> in it, and a character that is not white space.\<close>

definition placeholder :: "string \<Rightarrow> bool" where
  "placeholder b = (\<not> includes_str b ''##'' \<and> list_ex (\<lambda>c. \<not> isWhiteSpace c) b)"

text \<open>No \<open>##\<close> starts inside \<open>pre\<close> when \<open>rest\<close> follows it.\<close>

fun marker_free :: "string \<Rightarrow> string \<Rightarrow> bool" where
  "marker_free [] rest = True"
| "marker_free (c # cs) rest = (\<not> startsWith ((c # cs) @ rest) ''##'' \<and> marker_free cs rest)"

lemma first_match_skip:
  "marker_free pre rest \<Longrightarrow> first_match words tail (pre @ rest) = first_match words tail rest"
  by (induction pre) (simp_all add: match_here_def del: startsWith.simps)

lemma until_marker_skip:
  "marker_free pre rest \<Longrightarrow> until_marker (pre @ rest) = pre @ until_marker rest"
  by (induction pre) (simp_all del: startsWith.simps)

lemma marker_free_append:
  "marker_free (xs @ ys) rest \<longleftrightarrow> marker_free xs (ys @ rest) \<and> marker_free ys rest"
  by (induction xs) (simp_all del: startsWith.simps)

lemma marker_free_body:
  "\<not> includes_str b ''##'' \<Longrightarrow> \<not> startsWith rest ''#'' \<Longrightarrow> marker_free b rest"
proof (induction b)
  case Nil
  then show ?case by simp
next
  case (Cons c cs)
  from Cons.prems(1) have a: "\<not> startsWith (c # cs) ''##''" and b: "\<not> includes_str cs ''##''"
    by simp_all
  have "\<not> startsWith ((c # cs) @ rest) ''##''"
  proof (cases cs)
    case Nil
    with Cons.prems(2) show ?thesis by (cases rest) auto
  next
    case (Cons d ds)
    with a show ?thesis by auto
  qed
  with Cons.IH [OF b Cons.prems(2)] show ?case by (simp del: startsWith.simps)
qed

lemma until_marker_at_marker:
  "rest = [] \<or> startsWith rest ''##'' \<Longrightarrow> until_marker rest = []"
  by (cases rest) (auto simp del: startsWith.simps)

lemma isWhiteSpace_lineFeed [simp]: "isWhiteSpace lineFeed"
  by (simp add: isWhiteSpace_def lineFeed_def)

text \<open>The part of a text after the blank lines it starts with.\<close>

definition skip_blank_lines :: "string \<Rightarrow> string" where
  "skip_blank_lines b = (case after_last_newline b of Some r \<Rightarrow> r | None \<Rightarrow> b)"

lemma after_last_newline_append:
  "list_ex (\<lambda>c. \<not> isWhiteSpace c) b
     \<Longrightarrow> after_last_newline (b @ x) = map_option (\<lambda>r. r @ x) (after_last_newline b)"
  by (induction b) (auto split: option.splits)

lemma after_last_newline_body:
  assumes "list_ex (\<lambda>c. \<not> isWhiteSpace c) b"
  shows "after_last_newline (lineFeed # b @ x) = Some (skip_blank_lines b @ x)"
  using after_last_newline_append [OF assms, of x]
  by (cases "after_last_newline b") (simp_all add: skip_blank_lines_def)

lemma after_last_newline_suffix:
  "after_last_newline b = Some r \<Longrightarrow> \<exists>p. b = p @ r \<and> list_all isWhiteSpace p"
proof (induction b arbitrary: r)
  case Nil
  then show ?case by simp
next
  case (Cons c cs)
  from Cons.prems have w: "isWhiteSpace c" by (auto split: if_splits)
  show ?case
  proof (cases "after_last_newline cs")
    case None
    with Cons.prems w have "r = cs" by (auto split: if_splits)
    with w have "c # cs = [c] @ r \<and> list_all isWhiteSpace [c]" by simp
    then show ?thesis by blast
  next
    case (Some r')
    with Cons.prems w have "r' = r" by simp
    with Cons.IH Some obtain p where "cs = p @ r" "list_all isWhiteSpace p" by blast
    with w have "c # cs = (c # p) @ r \<and> list_all isWhiteSpace (c # p)" by simp
    then show ?thesis by blast
  qed
qed

lemma skip_blank_lines_suffix:
  "\<exists>p. b = p @ skip_blank_lines b \<and> list_all isWhiteSpace p"
proof (cases "after_last_newline b")
  case None
  then have "b = [] @ skip_blank_lines b \<and> list_all isWhiteSpace []"
    by (simp add: skip_blank_lines_def)
  then show ?thesis by blast
next
  case (Some r)
  with after_last_newline_suffix [OF Some] show ?thesis by (simp add: skip_blank_lines_def)
qed

lemma trim_after_white_space:
  assumes "list_all isWhiteSpace p"
  shows "trim (p @ r) = trim r"
proof -
  have "dropWhile isWhiteSpace (p @ r) = dropWhile isWhiteSpace r"
    using assms by (simp add: dropWhile_append list_all_iff)
  then show ?thesis by (simp add: trim_def)
qed

lemma trim_line:
  assumes "list_ex (\<lambda>c. \<not> isWhiteSpace c) r"
  shows "trim (r @ [lineFeed]) = trim r"
proof -
  from assms obtain c where c: "c \<in> set r" "\<not> isWhiteSpace c" by (auto simp: list_ex_iff)
  have "dropWhile isWhiteSpace (r @ [lineFeed]) = dropWhile isWhiteSpace r @ [lineFeed]"
    using c by (rule dropWhile_append1)
  then show ?thesis by (simp add: trim_def)
qed

lemma trim_not_empty:
  assumes "list_ex (\<lambda>c. \<not> isWhiteSpace c) b"
  shows "trim b \<noteq> []"
proof -
  from assms have "dropWhile isWhiteSpace b \<noteq> []" by (auto simp: list_ex_iff dropWhile_eq_Nil_conv)
  then obtain c cs where d: "dropWhile isWhiteSpace b = c # cs" by (cases "dropWhile isWhiteSpace b") auto
  then have "\<not> isWhiteSpace c" using hd_dropWhile [of isWhiteSpace b] by auto
  then have "dropWhile isWhiteSpace (rev (c # cs)) \<noteq> []"
    by (auto simp: dropWhile_eq_Nil_conv)
  with d show ?thesis by (simp add: trim_def)
qed

lemma placeholder_skip_blank_lines:
  assumes "placeholder b"
  shows "placeholder (skip_blank_lines b)" and "trim (skip_blank_lines b) = trim b"
proof -
  from skip_blank_lines_suffix obtain p where
    p: "b = p @ skip_blank_lines b" "list_all isWhiteSpace p" by blast
  from assms have n: "\<not> includes_str b ''##''" and e: "list_ex (\<lambda>c. \<not> isWhiteSpace c) b"
    by (simp_all add: placeholder_def)
  have "\<not> includes_str (skip_blank_lines b) ''##''"
  proof
    assume "includes_str (skip_blank_lines b) ''##''"
    then obtain u v where "skip_blank_lines b = u @ ''##'' @ v" unfolding includes_str_iff by blast
    with p(1) have "b = (p @ u) @ ''##'' @ v" by simp
    with n show False unfolding includes_str_iff by blast
  qed
  moreover have "list_ex (\<lambda>c. \<not> isWhiteSpace c) (skip_blank_lines b)"
  proof -
    from e obtain c where "c \<in> set b" "\<not> isWhiteSpace c" by (auto simp: list_ex_iff)
    with p have "c \<in> set (skip_blank_lines b)"
      by (metis UnE list_all_iff set_append)
    with \<open>\<not> isWhiteSpace c\<close> show ?thesis by (auto simp: list_ex_iff)
  qed
  ultimately show "placeholder (skip_blank_lines b)" by (simp add: placeholder_def)
  show "trim (skip_blank_lines b) = trim b"
    using trim_after_white_space [OF p(2), of "skip_blank_lines b"] p(1) by simp
qed

text \<open>The capture that ends a section: the placeholder text and its line feed.\<close>

lemma capture_body:
  assumes "placeholder b" and "rest = [] \<or> startsWith rest ''##''"
  shows "until_marker (b @ lineFeed # rest) = b @ [lineFeed]"
proof -
  from assms(1) have n: "\<not> includes_str b ''##''" by (simp add: placeholder_def)
  have "marker_free b (lineFeed # rest)"
    by (rule marker_free_body [OF n]) (simp add: lineFeed_def)
  moreover have "marker_free [lineFeed] rest"
    by (cases rest) (simp_all add: lineFeed_def)
  ultimately have "marker_free (b @ [lineFeed]) rest" by (simp add: marker_free_append)
  from until_marker_skip [OF this] until_marker_at_marker [OF assms(2)]
  show ?thesis by simp
qed

text \<open>A pattern whose words differ from a heading does not match at that heading.\<close>

fun mismatch :: "string \<Rightarrow> string \<Rightarrow> bool" where
  "mismatch [] s = False"
| "mismatch (p # ps) [] = False"
| "mismatch (p # ps) (c # cs) = (toLowerChar c \<noteq> toLowerChar p \<or> mismatch ps cs)"

lemma mismatch_no_match: "mismatch words h \<Longrightarrow> match_ci words (h @ x) = None"
  by (induction words h rule: mismatch.induct) auto

lemma skip_section:
  assumes m: "mismatch words h"
    and h: "\<not> includes_str h ''##''" "h \<noteq> []" "\<not> isWhiteSpace (hd h)" "hd h \<noteq> CHR ''#''"
    and b: "placeholder b"
    and r: "rest = [] \<or> startsWith rest ''##''"
  shows "first_match words tail (section_text h b @ rest) = first_match words tail rest"
proof -
  let ?x = "lineFeed # b @ lineFeed # rest"
  from h obtain c cs where hc: "h = c # cs" "\<not> isWhiteSpace c" "c \<noteq> CHR ''#''"
    by (cases h) auto
  have sp: "isWhiteSpace (CHR '' '')" by (simp add: isWhiteSpace_def)
  have "dropWhile isWhiteSpace (CHR '' '' # h @ ?x) = h @ ?x"
    using hc sp by simp
  then have here: "match_here words tail (CHR ''#'' # CHR ''#'' # CHR '' '' # h @ ?x) = None"
    using mismatch_no_match [OF m, of ?x] by (simp add: match_here_def)
  from b have n: "\<not> includes_str b ''##''" by (simp add: placeholder_def)
  have f1: "marker_free ''# '' (h @ ?x)" using hc by simp
  have f2: "marker_free h ?x"
    by (rule marker_free_body [OF h(1)]) (simp add: lineFeed_def)
  have f3: "marker_free [lineFeed] (b @ lineFeed # rest)"
    by (cases b) (simp_all add: lineFeed_def)
  have f4: "marker_free b (lineFeed # rest)"
    by (rule marker_free_body [OF n]) (simp add: lineFeed_def)
  have f5: "marker_free [lineFeed] rest"
    by (cases rest) (simp_all add: lineFeed_def)
  have "marker_free (''# '' @ h @ [lineFeed] @ b @ [lineFeed]) rest"
    unfolding marker_free_append using f1 f2 f3 f4 f5 by (simp del: marker_free.simps)
  from first_match_skip [OF this]
  have "first_match words tail (CHR ''#'' # CHR '' '' # h @ ?x) = first_match words tail rest"
    by simp
  with here show ?thesis by (simp add: section_text_def)
qed


definition heading_ok :: "string \<Rightarrow> bool" where
  "heading_ok h = (\<not> includes_str h ''##'' \<and> h \<noteq> [] \<and> \<not> isWhiteSpace (hd h) \<and> hd h \<noteq> CHR ''#'')"

definition sections_text :: "(string \<times> string) list \<Rightarrow> string" where
  "sections_text hbs = concat (map (\<lambda>(h, b). section_text h b) hbs)"

lemma sections_text_starts: "sections_text hbs = [] \<or> startsWith (sections_text hbs) ''##''"
  by (cases hbs) (auto simp: sections_text_def section_text_def)

lemma starts_append:
  "xs = [] \<or> startsWith xs ''##'' \<Longrightarrow> rest = [] \<or> startsWith rest ''##''
     \<Longrightarrow> xs @ rest = [] \<or> startsWith (xs @ rest) ''##''"
  by (auto simp: startsWith_iff)

lemma skip_sections:
  assumes "list_all (\<lambda>(h, b). mismatch words h \<and> heading_ok h \<and> placeholder b) hbs"
    and "rest = [] \<or> startsWith rest ''##''"
  shows "first_match words tail (sections_text hbs @ rest) = first_match words tail rest"
  using assms
proof (induction hbs)
  case Nil
  then show ?case by (simp add: sections_text_def)
next
  case (Cons hb hbs)
  obtain h b where hb: "hb = (h, b)" by (cases hb)
  from Cons.prems(1) hb have m: "mismatch words h" and ok: "heading_ok h" and p: "placeholder b"
    and rest: "list_all (\<lambda>(h, b). mismatch words h \<and> heading_ok h \<and> placeholder b) hbs"
    by simp_all
  have r: "sections_text hbs @ rest = [] \<or> startsWith (sections_text hbs @ rest) ''##''"
    by (rule starts_append [OF sections_text_starts Cons.prems(2)])
  from ok have h: "\<not> includes_str h ''##''" "h \<noteq> []" "\<not> isWhiteSpace (hd h)" "hd h \<noteq> CHR ''#''"
    by (simp_all add: heading_ok_def)
  have "first_match words tail (section_text h b @ sections_text hbs @ rest)
      = first_match words tail (sections_text hbs @ rest)"
    by (rule skip_section [OF m h p r])
  also have "\<dots> = first_match words tail rest"
    by (rule Cons.IH [OF rest Cons.prems(2)])
  finally show ?case by (simp add: hb sections_text_def)
qed

lemma match_ci_self: "match_ci words (words @ x) = Some x"
  by (induction words) simp_all

lemma after_first_newline_line:
  "lineFeed \<notin> set extra \<Longrightarrow> after_first_newline (extra @ lineFeed # y) = Some y"
  by (induction extra) auto

lemma first_match_here:
  "match_here words tail s = Some m \<Longrightarrow> first_match words tail s = Some m"
  by (cases s) (simp_all add: match_here_def)

lemma match_here_heading:
  assumes "words \<noteq> []" and "\<not> isWhiteSpace (hd words)"
  shows "match_here words tail (section_text (words @ extra) b @ rest)
         = (case match_tail tail (extra @ lineFeed # b @ lineFeed # rest) of
              Some r' \<Rightarrow> Some (until_marker r') | None \<Rightarrow> None)"
proof -
  from assms obtain c cs where w: "words = c # cs" "\<not> isWhiteSpace c" by (cases words) auto
  have sp: "isWhiteSpace (CHR '' '')" by (simp add: isWhiteSpace_def)
  have "dropWhile isWhiteSpace (CHR '' '' # words @ extra @ lineFeed # b @ lineFeed # rest)
      = words @ extra @ lineFeed # b @ lineFeed # rest"
    using w sp by simp
  then show ?thesis
    by (simp add: match_here_def section_text_def match_ci_self)
qed

lemma own_WhiteSpaceLine:
  assumes "words \<noteq> []" and "\<not> isWhiteSpace (hd words)"
    and "placeholder b" and "rest = [] \<or> startsWith rest ''##''"
  shows "first_match words WhiteSpaceLine (section_text words b @ rest)
         = Some (skip_blank_lines b @ [lineFeed])"
proof -
  from assms(3) have e: "list_ex (\<lambda>c. \<not> isWhiteSpace c) b" by (simp add: placeholder_def)
  have "match_here words WhiteSpaceLine (section_text (words @ []) b @ rest)
      = Some (until_marker (skip_blank_lines b @ lineFeed # rest))"
    unfolding match_here_heading [OF assms(1,2)]
    using after_last_newline_body [OF e, of "lineFeed # rest"] by simp
  also have "\<dots> = Some (skip_blank_lines b @ [lineFeed])"
    using capture_body [OF placeholder_skip_blank_lines(1) [OF assms(3)] assms(4)] by simp
  finally show ?thesis using first_match_here by simp
qed

lemma own_RestOfLine:
  assumes "words \<noteq> []" and "\<not> isWhiteSpace (hd words)" and "lineFeed \<notin> set extra"
    and "placeholder b" and "rest = [] \<or> startsWith rest ''##''"
  shows "first_match words RestOfLine (section_text (words @ extra) b @ rest)
         = Some (b @ [lineFeed])"
proof -
  have "match_here words RestOfLine (section_text (words @ extra) b @ rest)
      = Some (until_marker (b @ lineFeed # rest))"
    unfolding match_here_heading [OF assms(1,2)]
    using after_first_newline_line [OF assms(3)] by simp
  also have "\<dots> = Some (b @ [lineFeed])"
    using capture_body [OF assms(4,5)] by simp
  finally show ?thesis by (rule first_match_here)
qed

lemma after_impact_venue:
  assumes "list_ex (\<lambda>c. \<not> isWhiteSpace c) b"
  shows "after_impact (''/Venue Impact'' @ lineFeed # b @ x) = Some (skip_blank_lines b @ x)"
  using after_last_newline_body [OF assms, of x]
  by (simp add: toLowerChar_def char_of_eq_iff del: after_last_newline.simps)

lemma own_ThroughImpact:
  assumes "placeholder b" and "rest = [] \<or> startsWith rest ''##''"
  shows "first_match ''Weather'' ThroughImpact (section_text ''Weather/Venue Impact'' b @ rest)
         = Some (skip_blank_lines b @ [lineFeed])"
proof -
  from assms(1) have e: "list_ex (\<lambda>c. \<not> isWhiteSpace c) b" by (simp add: placeholder_def)
  have w: "''Weather'' \<noteq> []" "\<not> isWhiteSpace (hd ''Weather'')" by (simp_all add: isWhiteSpace_def)
  have "match_here ''Weather'' ThroughImpact
          (section_text (''Weather'' @ ''/Venue Impact'') b @ rest)
      = Some (until_marker (skip_blank_lines b @ lineFeed # rest))"
    unfolding match_here_heading [OF w]
    using after_impact_venue [OF e, of "lineFeed # rest"] by simp
  also have "\<dots> = Some (skip_blank_lines b @ [lineFeed])"
    using capture_body [OF placeholder_skip_blank_lines(1) [OF assms(1)] assms(2)] by simp
  finally show ?thesis using first_match_here by simp
qed

lemmas heading_eval =
  heading_ok_def isWhiteSpace_def toLowerChar_def char_of_eq_iff lineFeed_def

lemma template_text_sections:
  "template_text b1 b2 b3 b4 b5 b6 b7 b8 = sections_text [(''Game Overview'', b1), (''Pitching Matchup Analysis'', b2), (''Key Offensive Matchups'', b3), (''Team Momentum & Recent Form'', b4), (''Strategic Factors'', b5), (''Key Players to Watch'', b6), (''Weather/Venue Impact'', b7), (''Prediction & Narrative'', b8)]"
  by (simp add: template_text_def sections_text_def)

lemma capture_gameOverview:
  assumes "placeholder b1" and "placeholder b2" and "placeholder b3" and "placeholder b4" and "placeholder b5" and "placeholder b6" and "placeholder b7" and "placeholder b8"
  shows "first_match ''Game Overview'' WhiteSpaceLine (template_text b1 b2 b3 b4 b5 b6 b7 b8) = Some (skip_blank_lines b1 @ [lineFeed])"
proof -
  have split: "template_text b1 b2 b3 b4 b5 b6 b7 b8
      = sections_text [] @ section_text ''Game Overview'' b1 @ sections_text [(''Pitching Matchup Analysis'', b2), (''Key Offensive Matchups'', b3), (''Team Momentum & Recent Form'', b4), (''Strategic Factors'', b5), (''Key Players to Watch'', b6), (''Weather/Venue Impact'', b7), (''Prediction & Narrative'', b8)]"
    by (simp add: template_text_def sections_text_def)
  have r: "sections_text [(''Pitching Matchup Analysis'', b2), (''Key Offensive Matchups'', b3), (''Team Momentum & Recent Form'', b4), (''Strategic Factors'', b5), (''Key Players to Watch'', b6), (''Weather/Venue Impact'', b7), (''Prediction & Narrative'', b8)] = [] \<or> startsWith (sections_text [(''Pitching Matchup Analysis'', b2), (''Key Offensive Matchups'', b3), (''Team Momentum & Recent Form'', b4), (''Strategic Factors'', b5), (''Key Players to Watch'', b6), (''Weather/Venue Impact'', b7), (''Prediction & Narrative'', b8)]) ''##''"
    by (rule sections_text_starts)
  have r': "section_text ''Game Overview'' b1 @ sections_text [(''Pitching Matchup Analysis'', b2), (''Key Offensive Matchups'', b3), (''Team Momentum & Recent Form'', b4), (''Strategic Factors'', b5), (''Key Players to Watch'', b6), (''Weather/Venue Impact'', b7), (''Prediction & Narrative'', b8)] = []
      \<or> startsWith (section_text ''Game Overview'' b1 @ sections_text [(''Pitching Matchup Analysis'', b2), (''Key Offensive Matchups'', b3), (''Team Momentum & Recent Form'', b4), (''Strategic Factors'', b5), (''Key Players to Watch'', b6), (''Weather/Venue Impact'', b7), (''Prediction & Narrative'', b8)]) ''##''"
    by (simp add: section_text_def)
  have skip: "first_match ''Game Overview'' WhiteSpaceLine (sections_text [] @ section_text ''Game Overview'' b1 @ sections_text [(''Pitching Matchup Analysis'', b2), (''Key Offensive Matchups'', b3), (''Team Momentum & Recent Form'', b4), (''Strategic Factors'', b5), (''Key Players to Watch'', b6), (''Weather/Venue Impact'', b7), (''Prediction & Narrative'', b8)])
      = first_match ''Game Overview'' WhiteSpaceLine (section_text ''Game Overview'' b1 @ sections_text [(''Pitching Matchup Analysis'', b2), (''Key Offensive Matchups'', b3), (''Team Momentum & Recent Form'', b4), (''Strategic Factors'', b5), (''Key Players to Watch'', b6), (''Weather/Venue Impact'', b7), (''Prediction & Narrative'', b8)])"
    by (rule skip_sections [OF _ r']) (simp add: assms heading_eval)
  have own: "first_match ''Game Overview'' WhiteSpaceLine (section_text ''Game Overview'' b1 @ sections_text [(''Pitching Matchup Analysis'', b2), (''Key Offensive Matchups'', b3), (''Team Momentum & Recent Form'', b4), (''Strategic Factors'', b5), (''Key Players to Watch'', b6), (''Weather/Venue Impact'', b7), (''Prediction & Narrative'', b8)]) = Some (skip_blank_lines b1 @ [lineFeed])"
    using own_WhiteSpaceLine [of "''Game Overview''" b1 "sections_text [(''Pitching Matchup Analysis'', b2), (''Key Offensive Matchups'', b3), (''Team Momentum & Recent Form'', b4), (''Strategic Factors'', b5), (''Key Players to Watch'', b6), (''Weather/Venue Impact'', b7), (''Prediction & Narrative'', b8)]"] r by (simp add: assms heading_eval)
  show ?thesis unfolding split skip own ..
qed

lemma capture_pitchingMatchup:
  assumes "placeholder b1" and "placeholder b2" and "placeholder b3" and "placeholder b4" and "placeholder b5" and "placeholder b6" and "placeholder b7" and "placeholder b8"
  shows "first_match ''Pitching Matchup Analysis'' WhiteSpaceLine (template_text b1 b2 b3 b4 b5 b6 b7 b8) = Some (skip_blank_lines b2 @ [lineFeed])"
proof -
  have split: "template_text b1 b2 b3 b4 b5 b6 b7 b8
      = sections_text [(''Game Overview'', b1)] @ section_text ''Pitching Matchup Analysis'' b2 @ sections_text [(''Key Offensive Matchups'', b3), (''Team Momentum & Recent Form'', b4), (''Strategic Factors'', b5), (''Key Players to Watch'', b6), (''Weather/Venue Impact'', b7), (''Prediction & Narrative'', b8)]"
    by (simp add: template_text_def sections_text_def)
  have r: "sections_text [(''Key Offensive Matchups'', b3), (''Team Momentum & Recent Form'', b4), (''Strategic Factors'', b5), (''Key Players to Watch'', b6), (''Weather/Venue Impact'', b7), (''Prediction & Narrative'', b8)] = [] \<or> startsWith (sections_text [(''Key Offensive Matchups'', b3), (''Team Momentum & Recent Form'', b4), (''Strategic Factors'', b5), (''Key Players to Watch'', b6), (''Weather/Venue Impact'', b7), (''Prediction & Narrative'', b8)]) ''##''"
    by (rule sections_text_starts)
  have r': "section_text ''Pitching Matchup Analysis'' b2 @ sections_text [(''Key Offensive Matchups'', b3), (''Team Momentum & Recent Form'', b4), (''Strategic Factors'', b5), (''Key Players to Watch'', b6), (''Weather/Venue Impact'', b7), (''Prediction & Narrative'', b8)] = []
      \<or> startsWith (section_text ''Pitching Matchup Analysis'' b2 @ sections_text [(''Key Offensive Matchups'', b3), (''Team Momentum & Recent Form'', b4), (''Strategic Factors'', b5), (''Key Players to Watch'', b6), (''Weather/Venue Impact'', b7), (''Prediction & Narrative'', b8)]) ''##''"
    by (simp add: section_text_def)
  have skip: "first_match ''Pitching Matchup Analysis'' WhiteSpaceLine (sections_text [(''Game Overview'', b1)] @ section_text ''Pitching Matchup Analysis'' b2 @ sections_text [(''Key Offensive Matchups'', b3), (''Team Momentum & Recent Form'', b4), (''Strategic Factors'', b5), (''Key Players to Watch'', b6), (''Weather/Venue Impact'', b7), (''Prediction & Narrative'', b8)])
      = first_match ''Pitching Matchup Analysis'' WhiteSpaceLine (section_text ''Pitching Matchup Analysis'' b2 @ sections_text [(''Key Offensive Matchups'', b3), (''Team Momentum & Recent Form'', b4), (''Strategic Factors'', b5), (''Key Players to Watch'', b6), (''Weather/Venue Impact'', b7), (''Prediction & Narrative'', b8)])"
    by (rule skip_sections [OF _ r']) (simp add: assms heading_eval)
  have own: "first_match ''Pitching Matchup Analysis'' WhiteSpaceLine (section_text ''Pitching Matchup Analysis'' b2 @ sections_text [(''Key Offensive Matchups'', b3), (''Team Momentum & Recent Form'', b4), (''Strategic Factors'', b5), (''Key Players to Watch'', b6), (''Weather/Venue Impact'', b7), (''Prediction & Narrative'', b8)]) = Some (skip_blank_lines b2 @ [lineFeed])"
    using own_WhiteSpaceLine [of "''Pitching Matchup Analysis''" b2 "sections_text [(''Key Offensive Matchups'', b3), (''Team Momentum & Recent Form'', b4), (''Strategic Factors'', b5), (''Key Players to Watch'', b6), (''Weather/Venue Impact'', b7), (''Prediction & Narrative'', b8)]"] r by (simp add: assms heading_eval)
  show ?thesis unfolding split skip own ..
qed

lemma capture_offensiveMatchups:
  assumes "placeholder b1" and "placeholder b2" and "placeholder b3" and "placeholder b4" and "placeholder b5" and "placeholder b6" and "placeholder b7" and "placeholder b8"
  shows "first_match ''Key Offensive Matchups'' WhiteSpaceLine (template_text b1 b2 b3 b4 b5 b6 b7 b8) = Some (skip_blank_lines b3 @ [lineFeed])"
proof -
  have split: "template_text b1 b2 b3 b4 b5 b6 b7 b8
      = sections_text [(''Game Overview'', b1), (''Pitching Matchup Analysis'', b2)] @ section_text ''Key Offensive Matchups'' b3 @ sections_text [(''Team Momentum & Recent Form'', b4), (''Strategic Factors'', b5), (''Key Players to Watch'', b6), (''Weather/Venue Impact'', b7), (''Prediction & Narrative'', b8)]"
    by (simp add: template_text_def sections_text_def)
  have r: "sections_text [(''Team Momentum & Recent Form'', b4), (''Strategic Factors'', b5), (''Key Players to Watch'', b6), (''Weather/Venue Impact'', b7), (''Prediction & Narrative'', b8)] = [] \<or> startsWith (sections_text [(''Team Momentum & Recent Form'', b4), (''Strategic Factors'', b5), (''Key Players to Watch'', b6), (''Weather/Venue Impact'', b7), (''Prediction & Narrative'', b8)]) ''##''"
    by (rule sections_text_starts)
  have r': "section_text ''Key Offensive Matchups'' b3 @ sections_text [(''Team Momentum & Recent Form'', b4), (''Strategic Factors'', b5), (''Key Players to Watch'', b6), (''Weather/Venue Impact'', b7), (''Prediction & Narrative'', b8)] = []
      \<or> startsWith (section_text ''Key Offensive Matchups'' b3 @ sections_text [(''Team Momentum & Recent Form'', b4), (''Strategic Factors'', b5), (''Key Players to Watch'', b6), (''Weather/Venue Impact'', b7), (''Prediction & Narrative'', b8)]) ''##''"
    by (simp add: section_text_def)
  have skip: "first_match ''Key Offensive Matchups'' WhiteSpaceLine (sections_text [(''Game Overview'', b1), (''Pitching Matchup Analysis'', b2)] @ section_text ''Key Offensive Matchups'' b3 @ sections_text [(''Team Momentum & Recent Form'', b4), (''Strategic Factors'', b5), (''Key Players to Watch'', b6), (''Weather/Venue Impact'', b7), (''Prediction & Narrative'', b8)])
      = first_match ''Key Offensive Matchups'' WhiteSpaceLine (section_text ''Key Offensive Matchups'' b3 @ sections_text [(''Team Momentum & Recent Form'', b4), (''Strategic Factors'', b5), (''Key Players to Watch'', b6), (''Weather/Venue Impact'', b7), (''Prediction & Narrative'', b8)])"
    by (rule skip_sections [OF _ r']) (simp add: assms heading_eval)
  have own: "first_match ''Key Offensive Matchups'' WhiteSpaceLine (section_text ''Key Offensive Matchups'' b3 @ sections_text [(''Team Momentum & Recent Form'', b4), (''Strategic Factors'', b5), (''Key Players to Watch'', b6), (''Weather/Venue Impact'', b7), (''Prediction & Narrative'', b8)]) = Some (skip_blank_lines b3 @ [lineFeed])"
    using own_WhiteSpaceLine [of "''Key Offensive Matchups''" b3 "sections_text [(''Team Momentum & Recent Form'', b4), (''Strategic Factors'', b5), (''Key Players to Watch'', b6), (''Weather/Venue Impact'', b7), (''Prediction & Narrative'', b8)]"] r by (simp add: assms heading_eval)
  show ?thesis unfolding split skip own ..
qed

lemma capture_teamMomentum:
  assumes "placeholder b1" and "placeholder b2" and "placeholder b3" and "placeholder b4" and "placeholder b5" and "placeholder b6" and "placeholder b7" and "placeholder b8"
  shows "first_match ''Team Momentum'' RestOfLine (template_text b1 b2 b3 b4 b5 b6 b7 b8) = Some (b4 @ [lineFeed])"
proof -
  have split: "template_text b1 b2 b3 b4 b5 b6 b7 b8
      = sections_text [(''Game Overview'', b1), (''Pitching Matchup Analysis'', b2), (''Key Offensive Matchups'', b3)] @ section_text ''Team Momentum & Recent Form'' b4 @ sections_text [(''Strategic Factors'', b5), (''Key Players to Watch'', b6), (''Weather/Venue Impact'', b7), (''Prediction & Narrative'', b8)]"
    by (simp add: template_text_def sections_text_def)
  have r: "sections_text [(''Strategic Factors'', b5), (''Key Players to Watch'', b6), (''Weather/Venue Impact'', b7), (''Prediction & Narrative'', b8)] = [] \<or> startsWith (sections_text [(''Strategic Factors'', b5), (''Key Players to Watch'', b6), (''Weather/Venue Impact'', b7), (''Prediction & Narrative'', b8)]) ''##''"
    by (rule sections_text_starts)
  have r': "section_text ''Team Momentum & Recent Form'' b4 @ sections_text [(''Strategic Factors'', b5), (''Key Players to Watch'', b6), (''Weather/Venue Impact'', b7), (''Prediction & Narrative'', b8)] = []
      \<or> startsWith (section_text ''Team Momentum & Recent Form'' b4 @ sections_text [(''Strategic Factors'', b5), (''Key Players to Watch'', b6), (''Weather/Venue Impact'', b7), (''Prediction & Narrative'', b8)]) ''##''"
    by (simp add: section_text_def)
  have skip: "first_match ''Team Momentum'' RestOfLine (sections_text [(''Game Overview'', b1), (''Pitching Matchup Analysis'', b2), (''Key Offensive Matchups'', b3)] @ section_text ''Team Momentum & Recent Form'' b4 @ sections_text [(''Strategic Factors'', b5), (''Key Players to Watch'', b6), (''Weather/Venue Impact'', b7), (''Prediction & Narrative'', b8)])
      = first_match ''Team Momentum'' RestOfLine (section_text ''Team Momentum & Recent Form'' b4 @ sections_text [(''Strategic Factors'', b5), (''Key Players to Watch'', b6), (''Weather/Venue Impact'', b7), (''Prediction & Narrative'', b8)])"
    by (rule skip_sections [OF _ r']) (simp add: assms heading_eval)
  have own: "first_match ''Team Momentum'' RestOfLine (section_text ''Team Momentum & Recent Form'' b4 @ sections_text [(''Strategic Factors'', b5), (''Key Players to Watch'', b6), (''Weather/Venue Impact'', b7), (''Prediction & Narrative'', b8)]) = Some (b4 @ [lineFeed])"
    using own_RestOfLine [of "''Team Momentum''" "'' & Recent Form''" b4 "sections_text [(''Strategic Factors'', b5), (''Key Players to Watch'', b6), (''Weather/Venue Impact'', b7), (''Prediction & Narrative'', b8)]"] r by (simp add: assms heading_eval)
  show ?thesis unfolding split skip own ..
qed

lemma capture_strategicFactors:
  assumes "placeholder b1" and "placeholder b2" and "placeholder b3" and "placeholder b4" and "placeholder b5" and "placeholder b6" and "placeholder b7" and "placeholder b8"
  shows "first_match ''Strategic Factors'' WhiteSpaceLine (template_text b1 b2 b3 b4 b5 b6 b7 b8) = Some (skip_blank_lines b5 @ [lineFeed])"
proof -
  have split: "template_text b1 b2 b3 b4 b5 b6 b7 b8
      = sections_text [(''Game Overview'', b1), (''Pitching Matchup Analysis'', b2), (''Key Offensive Matchups'', b3), (''Team Momentum & Recent Form'', b4)] @ section_text ''Strategic Factors'' b5 @ sections_text [(''Key Players to Watch'', b6), (''Weather/Venue Impact'', b7), (''Prediction & Narrative'', b8)]"
    by (simp add: template_text_def sections_text_def)
  have r: "sections_text [(''Key Players to Watch'', b6), (''Weather/Venue Impact'', b7), (''Prediction & Narrative'', b8)] = [] \<or> startsWith (sections_text [(''Key Players to Watch'', b6), (''Weather/Venue Impact'', b7), (''Prediction & Narrative'', b8)]) ''##''"
    by (rule sections_text_starts)
  have r': "section_text ''Strategic Factors'' b5 @ sections_text [(''Key Players to Watch'', b6), (''Weather/Venue Impact'', b7), (''Prediction & Narrative'', b8)] = []
      \<or> startsWith (section_text ''Strategic Factors'' b5 @ sections_text [(''Key Players to Watch'', b6), (''Weather/Venue Impact'', b7), (''Prediction & Narrative'', b8)]) ''##''"
    by (simp add: section_text_def)
  have skip: "first_match ''Strategic Factors'' WhiteSpaceLine (sections_text [(''Game Overview'', b1), (''Pitching Matchup Analysis'', b2), (''Key Offensive Matchups'', b3), (''Team Momentum & Recent Form'', b4)] @ section_text ''Strategic Factors'' b5 @ sections_text [(''Key Players to Watch'', b6), (''Weather/Venue Impact'', b7), (''Prediction & Narrative'', b8)])
      = first_match ''Strategic Factors'' WhiteSpaceLine (section_text ''Strategic Factors'' b5 @ sections_text [(''Key Players to Watch'', b6), (''Weather/Venue Impact'', b7), (''Prediction & Narrative'', b8)])"
    by (rule skip_sections [OF _ r']) (simp add: assms heading_eval)
  have own: "first_match ''Strategic Factors'' WhiteSpaceLine (section_text ''Strategic Factors'' b5 @ sections_text [(''Key Players to Watch'', b6), (''Weather/Venue Impact'', b7), (''Prediction & Narrative'', b8)]) = Some (skip_blank_lines b5 @ [lineFeed])"
    using own_WhiteSpaceLine [of "''Strategic Factors''" b5 "sections_text [(''Key Players to Watch'', b6), (''Weather/Venue Impact'', b7), (''Prediction & Narrative'', b8)]"] r by (simp add: assms heading_eval)
  show ?thesis unfolding split skip own ..
qed

lemma capture_keyPlayers:
  assumes "placeholder b1" and "placeholder b2" and "placeholder b3" and "placeholder b4" and "placeholder b5" and "placeholder b6" and "placeholder b7" and "placeholder b8"
  shows "first_match ''Key Players'' RestOfLine (template_text b1 b2 b3 b4 b5 b6 b7 b8) = Some (b6 @ [lineFeed])"
proof -
  have split: "template_text b1 b2 b3 b4 b5 b6 b7 b8
      = sections_text [(''Game Overview'', b1), (''Pitching Matchup Analysis'', b2), (''Key Offensive Matchups'', b3), (''Team Momentum & Recent Form'', b4), (''Strategic Factors'', b5)] @ section_text ''Key Players to Watch'' b6 @ sections_text [(''Weather/Venue Impact'', b7), (''Prediction & Narrative'', b8)]"
    by (simp add: template_text_def sections_text_def)
  have r: "sections_text [(''Weather/Venue Impact'', b7), (''Prediction & Narrative'', b8)] = [] \<or> startsWith (sections_text [(''Weather/Venue Impact'', b7), (''Prediction & Narrative'', b8)]) ''##''"
    by (rule sections_text_starts)
  have r': "section_text ''Key Players to Watch'' b6 @ sections_text [(''Weather/Venue Impact'', b7), (''Prediction & Narrative'', b8)] = []
      \<or> startsWith (section_text ''Key Players to Watch'' b6 @ sections_text [(''Weather/Venue Impact'', b7), (''Prediction & Narrative'', b8)]) ''##''"
    by (simp add: section_text_def)
  have skip: "first_match ''Key Players'' RestOfLine (sections_text [(''Game Overview'', b1), (''Pitching Matchup Analysis'', b2), (''Key Offensive Matchups'', b3), (''Team Momentum & Recent Form'', b4), (''Strategic Factors'', b5)] @ section_text ''Key Players to Watch'' b6 @ sections_text [(''Weather/Venue Impact'', b7), (''Prediction & Narrative'', b8)])
      = first_match ''Key Players'' RestOfLine (section_text ''Key Players to Watch'' b6 @ sections_text [(''Weather/Venue Impact'', b7), (''Prediction & Narrative'', b8)])"
    by (rule skip_sections [OF _ r']) (simp add: assms heading_eval)
  have own: "first_match ''Key Players'' RestOfLine (section_text ''Key Players to Watch'' b6 @ sections_text [(''Weather/Venue Impact'', b7), (''Prediction & Narrative'', b8)]) = Some (b6 @ [lineFeed])"
    using own_RestOfLine [of "''Key Players''" "'' to Watch''" b6 "sections_text [(''Weather/Venue Impact'', b7), (''Prediction & Narrative'', b8)]"] r by (simp add: assms heading_eval)
  show ?thesis unfolding split skip own ..
qed

lemma capture_weatherVenue:
  assumes "placeholder b1" and "placeholder b2" and "placeholder b3" and "placeholder b4" and "placeholder b5" and "placeholder b6" and "placeholder b7" and "placeholder b8"
  shows "first_match ''Weather'' ThroughImpact (template_text b1 b2 b3 b4 b5 b6 b7 b8) = Some (skip_blank_lines b7 @ [lineFeed])"
proof -
  have split: "template_text b1 b2 b3 b4 b5 b6 b7 b8
      = sections_text [(''Game Overview'', b1), (''Pitching Matchup Analysis'', b2), (''Key Offensive Matchups'', b3), (''Team Momentum & Recent Form'', b4), (''Strategic Factors'', b5), (''Key Players to Watch'', b6)] @ section_text ''Weather/Venue Impact'' b7 @ sections_text [(''Prediction & Narrative'', b8)]"
    by (simp add: template_text_def sections_text_def)
  have r: "sections_text [(''Prediction & Narrative'', b8)] = [] \<or> startsWith (sections_text [(''Prediction & Narrative'', b8)]) ''##''"
    by (rule sections_text_starts)
  have r': "section_text ''Weather/Venue Impact'' b7 @ sections_text [(''Prediction & Narrative'', b8)] = []
      \<or> startsWith (section_text ''Weather/Venue Impact'' b7 @ sections_text [(''Prediction & Narrative'', b8)]) ''##''"
    by (simp add: section_text_def)
  have skip: "first_match ''Weather'' ThroughImpact (sections_text [(''Game Overview'', b1), (''Pitching Matchup Analysis'', b2), (''Key Offensive Matchups'', b3), (''Team Momentum & Recent Form'', b4), (''Strategic Factors'', b5), (''Key Players to Watch'', b6)] @ section_text ''Weather/Venue Impact'' b7 @ sections_text [(''Prediction & Narrative'', b8)])
      = first_match ''Weather'' ThroughImpact (section_text ''Weather/Venue Impact'' b7 @ sections_text [(''Prediction & Narrative'', b8)])"
    by (rule skip_sections [OF _ r']) (simp add: assms heading_eval)
  have own: "first_match ''Weather'' ThroughImpact (section_text ''Weather/Venue Impact'' b7 @ sections_text [(''Prediction & Narrative'', b8)]) = Some (skip_blank_lines b7 @ [lineFeed])"
    using own_ThroughImpact [of b7 "sections_text [(''Prediction & Narrative'', b8)]"] r by (simp add: assms heading_eval)
  show ?thesis unfolding split skip own ..
qed

lemma capture_prediction:
  assumes "placeholder b1" and "placeholder b2" and "placeholder b3" and "placeholder b4" and "placeholder b5" and "placeholder b6" and "placeholder b7" and "placeholder b8"
  shows "first_match ''Prediction'' RestOfLine (template_text b1 b2 b3 b4 b5 b6 b7 b8) = Some (b8 @ [lineFeed])"
proof -
  have split: "template_text b1 b2 b3 b4 b5 b6 b7 b8
      = sections_text [(''Game Overview'', b1), (''Pitching Matchup Analysis'', b2), (''Key Offensive Matchups'', b3), (''Team Momentum & Recent Form'', b4), (''Strategic Factors'', b5), (''Key Players to Watch'', b6), (''Weather/Venue Impact'', b7)] @ section_text ''Prediction & Narrative'' b8 @ sections_text []"
    by (simp add: template_text_def sections_text_def)
  have r: "sections_text [] = [] \<or> startsWith (sections_text []) ''##''"
    by (rule sections_text_starts)
  have r': "section_text ''Prediction & Narrative'' b8 @ sections_text [] = []
      \<or> startsWith (section_text ''Prediction & Narrative'' b8 @ sections_text []) ''##''"
    by (simp add: section_text_def)
  have skip: "first_match ''Prediction'' RestOfLine (sections_text [(''Game Overview'', b1), (''Pitching Matchup Analysis'', b2), (''Key Offensive Matchups'', b3), (''Team Momentum & Recent Form'', b4), (''Strategic Factors'', b5), (''Key Players to Watch'', b6), (''Weather/Venue Impact'', b7)] @ section_text ''Prediction & Narrative'' b8 @ sections_text [])
      = first_match ''Prediction'' RestOfLine (section_text ''Prediction & Narrative'' b8 @ sections_text [])"
    by (rule skip_sections [OF _ r']) (simp add: assms heading_eval)
  have own: "first_match ''Prediction'' RestOfLine (section_text ''Prediction & Narrative'' b8 @ sections_text []) = Some (b8 @ [lineFeed])"
    using own_RestOfLine [of "''Prediction''" "'' & Narrative''" b8 "sections_text []"] r by (simp add: assms heading_eval)
  show ?thesis unfolding split skip own ..
qed

lemma content_of_capture:
  assumes "placeholder b"
  shows "trim (skip_blank_lines b @ [lineFeed]) = trim b" and "trim (b @ [lineFeed]) = trim b"
proof -
  from assms have e: "list_ex (\<lambda>c. \<not> isWhiteSpace c) b" by (simp add: placeholder_def)
  from placeholder_skip_blank_lines(1) [OF assms]
  have e': "list_ex (\<lambda>c. \<not> isWhiteSpace c) (skip_blank_lines b)" by (simp add: placeholder_def)
  show "trim (skip_blank_lines b @ [lineFeed]) = trim b"
    using trim_line [OF e'] placeholder_skip_blank_lines(2) [OF assms] by simp
  show "trim (b @ [lineFeed]) = trim b" by (rule trim_line [OF e])
qed

definition section_contents :: "(string \<times> parsed_section) list \<Rightarrow> (string \<times> string) list" where
  "section_contents sections = map (\<lambda>(name, s). (name, content s)) sections"

lemma template_recovered:
  assumes "placeholder b1" and "placeholder b2" and "placeholder b3" and "placeholder b4"
    and "placeholder b5" and "placeholder b6" and "placeholder b7" and "placeholder b8"
  shows "section_contents (extractStructuredSections bf kf (template_text b1 b2 b3 b4 b5 b6 b7 b8)) =
           [(''gameOverview'', trim b1),
            (''pitchingMatchup'', trim b2),
            (''offensiveMatchups'', trim b3),
            (''teamMomentum'', trim b4),
            (''strategicFactors'', trim b5),
            (''keyPlayers'', trim b6),
            (''weatherVenue'', trim b7),
            (''prediction'', trim b8)]"
  unfolding extractStructuredSections_def sectionPatterns_def section_contents_def
  by (simp add: capture_gameOverview capture_pitchingMatchup capture_offensiveMatchups capture_teamMomentum capture_strategicFactors capture_keyPlayers capture_weatherVenue capture_prediction [OF assms] content_of_capture assms)

section \<open>Claims about extractStructuredSections\<close>

text \<open>
  C8, as stated, fails. A placeholder that is not empty can still leave an empty
  \<open>content\<close>: the capture stops at the first \<open>##\<close>, so a placeholder that opens with a
  sub-heading \<open>### Summary\<close> is cut before its first character. Here the text has the
  eight template headings in order, each followed by non-empty text, and the
  \<open>gameOverview\<close> section comes back with an empty \<open>content\<close>.
\<close>

theorem extractStructuredSections_subheading_counterexample:
  "section_contents (extractStructuredSections (\<lambda>text. []) (\<lambda>text. [])
       (template_text (''### Summary'' @ [lineFeed] @ ''Giants at home'')
          ''Webb vs Kershaw'' ''Lineups'' ''Won 4 of 5'' ''Bullpen'' ''Chapman''
          ''Wind out to left'' ''Giants 4-3''))
     = [(''gameOverview'', []),
        (''pitchingMatchup'', ''Webb vs Kershaw''),
        (''offensiveMatchups'', ''Lineups''),
        (''teamMomentum'', ''Won 4 of 5''),
        (''strategicFactors'', ''Bullpen''),
        (''keyPlayers'', ''Chapman''),
        (''weatherVenue'', ''Wind out to left''),
        (''prediction'', ''Giants 4-3'')]"
  by code_simp

text \<open>
  C8, amended. A section whose heading words do not occur in the text (in either case)
  is absent from the result, and a text without \<open>##\<close> gives the empty mapping; the
  function is total, so nothing is thrown. For a text made of the eight template
  headings in order, each \<open>## heading\<close> on a line of its own and followed by a placeholder
  that contains no \<open>##\<close> and has a character that is not white space, the result holds
  all eight sections, in the order of the patterns, each with the trimmed placeholder
  as its \<open>content\<close>, which is not empty.
\<close>

theorem extractStructuredSections_robust:
  "((name, words, tail) \<in> set sectionPatterns
      \<and> \<not> includes_str (toLowerCase analysis) (toLowerCase words)
      \<longrightarrow> map_of (extractStructuredSections bf kf analysis) name = None)
   \<and> (\<not> includes_str analysis ''##'' \<longrightarrow> extractStructuredSections bf kf analysis = [])
   \<and> (placeholder b1 \<and> placeholder b2 \<and> placeholder b3 \<and> placeholder b4 \<and> placeholder b5 \<and> placeholder b6 \<and> placeholder b7 \<and> placeholder b8
      \<longrightarrow> section_contents (extractStructuredSections bf kf (template_text b1 b2 b3 b4 b5 b6 b7 b8)) =
           [(''gameOverview'', trim b1),
            (''pitchingMatchup'', trim b2),
            (''offensiveMatchups'', trim b3),
            (''teamMomentum'', trim b4),
            (''strategicFactors'', trim b5),
            (''keyPlayers'', trim b6),
            (''weatherVenue'', trim b7),
            (''prediction'', trim b8)]
        \<and> trim b1 \<noteq> [] \<and> trim b2 \<noteq> [] \<and> trim b3 \<noteq> [] \<and> trim b4 \<noteq> [] \<and> trim b5 \<noteq> [] \<and> trim b6 \<noteq> [] \<and> trim b7 \<noteq> [] \<and> trim b8 \<noteq> [])"
proof (intro conjI impI)
  assume a: "(name, words, tail) \<in> set sectionPatterns
      \<and> \<not> includes_str (toLowerCase analysis) (toLowerCase words)"
  then have "first_match words tail analysis = None"
    using first_match_words [of words tail analysis] by (cases "first_match words tail analysis") auto
  with a show "map_of (extractStructuredSections bf kf analysis) name = None"
    using section_absent by blast
next
  assume "\<not> includes_str analysis ''##''"
  then show "extractStructuredSections bf kf analysis = []" by (rule no_marker_no_sections)
next
  assume p: "placeholder b1 \<and> placeholder b2 \<and> placeholder b3 \<and> placeholder b4 \<and> placeholder b5 \<and> placeholder b6 \<and> placeholder b7 \<and> placeholder b8"
  then show "section_contents (extractStructuredSections bf kf (template_text b1 b2 b3 b4 b5 b6 b7 b8)) =
           [(''gameOverview'', trim b1),
            (''pitchingMatchup'', trim b2),
            (''offensiveMatchups'', trim b3),
            (''teamMomentum'', trim b4),
            (''strategicFactors'', trim b5),
            (''keyPlayers'', trim b6),
            (''weatherVenue'', trim b7),
            (''prediction'', trim b8)]"
    by (simp add: template_recovered)
next
  assume p: "placeholder b1 \<and> placeholder b2 \<and> placeholder b3 \<and> placeholder b4 \<and> placeholder b5 \<and> placeholder b6 \<and> placeholder b7 \<and> placeholder b8"
  then show "trim b1 \<noteq> []" by (simp add: trim_not_empty placeholder_def)
next
  assume p: "placeholder b1 \<and> placeholder b2 \<and> placeholder b3 \<and> placeholder b4 \<and> placeholder b5 \<and> placeholder b6 \<and> placeholder b7 \<and> placeholder b8"
  then show "trim b2 \<noteq> []" by (simp add: trim_not_empty placeholder_def)
next
  assume p: "placeholder b1 \<and> placeholder b2 \<and> placeholder b3 \<and> placeholder b4 \<and> placeholder b5 \<and> placeholder b6 \<and> placeholder b7 \<and> placeholder b8"
  then show "trim b3 \<noteq> []" by (simp add: trim_not_empty placeholder_def)
next
  assume p: "placeholder b1 \<and> placeholder b2 \<and> placeholder b3 \<and> placeholder b4 \<and> placeholder b5 \<and> placeholder b6 \<and> placeholder b7 \<and> placeholder b8"
  then show "trim b4 \<noteq> []" by (simp add: trim_not_empty placeholder_def)
next
  assume p: "placeholder b1 \<and> placeholder b2 \<and> placeholder b3 \<and> placeholder b4 \<and> placeholder b5 \<and> placeholder b6 \<and> placeholder b7 \<and> placeholder b8"
  then show "trim b5 \<noteq> []" by (simp add: trim_not_empty placeholder_def)
next
  assume p: "placeholder b1 \<and> placeholder b2 \<and> placeholder b3 \<and> placeholder b4 \<and> placeholder b5 \<and> placeholder b6 \<and> placeholder b7 \<and> placeholder b8"
  then show "trim b6 \<noteq> []" by (simp add: trim_not_empty placeholder_def)
next
  assume p: "placeholder b1 \<and> placeholder b2 \<and> placeholder b3 \<and> placeholder b4 \<and> placeholder b5 \<and> placeholder b6 \<and> placeholder b7 \<and> placeholder b8"
  then show "trim b7 \<noteq> []" by (simp add: trim_not_empty placeholder_def)
next
  assume p: "placeholder b1 \<and> placeholder b2 \<and> placeholder b3 \<and> placeholder b4 \<and> placeholder b5 \<and> placeholder b6 \<and> placeholder b7 \<and> placeholder b8"
  then show "trim b8 \<noteq> []" by (simp add: trim_not_empty placeholder_def)
qed

theorem extractStructuredSections_robust_witness:
  "map_of (extractStructuredSections (\<lambda>text. []) (\<lambda>text. []) ''The Giants host the Dodgers tonight.'')
       ''gameOverview'' = None
   \<and> extractStructuredSections (\<lambda>text. []) (\<lambda>text. []) ''The Giants host the Dodgers tonight.'' = []
   \<and> section_contents (extractStructuredSections (\<lambda>text. []) (\<lambda>text. [])
        (template_text ''Giants at home'' ''Webb vs Kershaw'' ''Lineups'' ''Won 4 of 5''
           ''Bullpen'' ''Chapman'' ''Wind out to left'' ''Giants 4-3''))
     = [(''gameOverview'', ''Giants at home''),
        (''pitchingMatchup'', ''Webb vs Kershaw''),
        (''offensiveMatchups'', ''Lineups''),
        (''teamMomentum'', ''Won 4 of 5''),
        (''strategicFactors'', ''Bullpen''),
        (''keyPlayers'', ''Chapman''),
        (''weatherVenue'', ''Wind out to left''),
        (''prediction'', ''Giants 4-3'')]"
  using extractStructuredSections_robust [of "''gameOverview''" "''Game Overview''" WhiteSpaceLine
      "''The Giants host the Dodgers tonight.''" "\<lambda>text. []" "\<lambda>text. []"
      "''Giants at home''" "''Webb vs Kershaw''" "''Lineups''" "''Won 4 of 5''"
      "''Bullpen''" "''Chapman''" "''Wind out to left''" "''Giants 4-3''"]
  by (simp add: sectionPatterns_def placeholder_def toLowerCase_def trim_def heading_eval)

end
